theory Spec2Isabelle
  imports Complex_Main "HOL-Library.AList"
begin

section \<open>Pipeline data model (tools/pipeline_models.py)\<close>

text \<open>
  Python strings are modelled as \<open>string\<close> (lists of bytes); the non-ASCII message
  literals of the source are written as their UTF-8 bytes. Python floats (stage
  weights, progress fractions, clock readings) are modelled as exact rationals.
\<close>

datatype ProcessingStage =
  METADATA_EXTRACTION | FULL_OCR | STRUCTURE_PARSING | REPORT_GENERATION | POST_PROCESSING

datatype ProcessingStatus = NOT_STARTED | IN_PROGRESS | COMPLETED | FAILED | SKIPPED

text \<open>The \<open>value\<close> of each enum member: the string the source assigns to it.\<close>

fun stage_value :: "ProcessingStage \<Rightarrow> string" where
  "stage_value METADATA_EXTRACTION = ''metadata_extraction''"
| "stage_value FULL_OCR = ''full_ocr''"
| "stage_value STRUCTURE_PARSING = ''structure_parsing''"
| "stage_value REPORT_GENERATION = ''report_generation''"
| "stage_value POST_PROCESSING = ''post_processing''"

text \<open>
  The position of a stage in the fixed pipeline order of the enumeration
  (first stage ... fifth stage in the comments of the source).
\<close>

fun stage_index :: "ProcessingStage \<Rightarrow> nat" where
  "stage_index METADATA_EXTRACTION = 0"
| "stage_index FULL_OCR = 1"
| "stage_index STRUCTURE_PARSING = 2"
| "stage_index REPORT_GENERATION = 3"
| "stage_index POST_PROCESSING = 4"

text \<open>Python's \<open><\<close> on \<open>str\<close>: lexicographic on the code units, a proper prefix is smaller.\<close>

fun str_lt :: "string \<Rightarrow> string \<Rightarrow> bool" where
  "str_lt [] [] = False"
| "str_lt [] (y # ys) = True"
| "str_lt (x # xs) [] = False"
| "str_lt (x # xs) (y # ys) =
     (if (of_char x :: nat) < of_char y then True
      else if x = y then str_lt xs ys
      else False)"

text \<open>The values of a \<open>Dict[str, Any]\<close>, as far as the configuration and the metadata hold them.\<close>

datatype pyval = PyNone | PyBool bool | PyNum rat | PyStr string

text \<open>
  The fields of \<open>PipelineConfig\<close>; \<open>config_output_dir\<close> is its \<open>output_dir\<close>. What
  \<open>__post_init__\<close> does when a configuration is constructed (the default API name, the
  creation of the output root, the warnings about missing templates) is not part of a run.
\<close>

record PipelineConfig =
  config_output_dir :: string
  api_name :: "string option"
  template_paths :: "(string \<times> string) list"
  llm_config :: "(string \<times> pyval) list"
  crop_params :: "(string \<times> rat) list option"
  keep_intermediate_files :: bool
  enable_progress_callback :: bool
  max_retry_attempts :: int

record StageResult =
  stage :: ProcessingStage
  status :: ProcessingStatus
  start_time :: "rat option"
  end_time :: "rat option"
  processing_time :: rat
  output_path :: "string option"
  metadata :: "(string \<times> pyval) list option"
  error_message :: "string option"
  error_traceback :: "string option"
  intermediate_files :: "string list"

text \<open>The constructor call \<open>StageResult(stage=..., status=...)\<close> with every default.\<close>

definition new_StageResult :: "ProcessingStage \<Rightarrow> ProcessingStatus \<Rightarrow> StageResult" where
  "new_StageResult s st =
     \<lparr>stage = s, status = st, start_time = None, end_time = None, processing_time = 0,
      output_path = None, metadata = None, error_message = None, error_traceback = None,
      intermediate_files = []\<rparr>"

definition success :: "StageResult \<Rightarrow> bool" where
  "success r = (status r = COMPLETED)"

text \<open>
  \<open>run_start_time\<close> and \<open>run_end_time\<close> are the \<open>start_time\<close> and \<open>end_time\<close> of
  \<open>PipelineResult\<close>, the names being taken by the fields of \<open>StageResult\<close>.
\<close>

record PipelineResult =
  input_pdf :: string
  output_dir :: string
  pdf_name :: string
  overall_status :: ProcessingStatus
  run_start_time :: "rat option"
  run_end_time :: "rat option"
  total_processing_time :: rat
  stages :: "(ProcessingStage \<times> StageResult) list"
  final_report_path :: "string option"
  metadata_path :: "string option"
  structure_path :: "string option"
  pipeline_error :: "string option"

text \<open>
  \<open>stages\<close> is a Python dict (insertion ordered): assigning to an existing key keeps its
  position and replaces the value, a new key goes to the end. That is \<open>AList.update\<close>.
\<close>

definition add_stage_result :: "StageResult \<Rightarrow> PipelineResult \<Rightarrow> PipelineResult" where
  "add_stage_result r res = res\<lparr>stages := AList.update (stage r) r (stages res)\<rparr>"

definition get_stage_result :: "PipelineResult \<Rightarrow> ProcessingStage \<Rightarrow> StageResult option" where
  "get_stage_result res s = map_of (stages res) s"

definition get_failed_stages :: "PipelineResult \<Rightarrow> ProcessingStage list" where
  "get_failed_stages res = map fst (filter (\<lambda>(s, r). status r = FAILED) (stages res))"

text \<open>
  The event passed to the progress callback. Its \<open>message\<close> and its
  \<open>estimated_remaining_time\<close> (always None) are left out: nothing reads them.
\<close>

record ProgressInfo =
  current_stage :: ProcessingStage
  stage_progress :: rat
  overall_progress :: rat

section \<open>Progress aggregation (PaperProcessingService._notify_progress)\<close>

definition stage_weights :: "(ProcessingStage \<times> rat) list" where
  "stage_weights =
     [(METADATA_EXTRACTION, 15 / 100), (FULL_OCR, 30 / 100), (STRUCTURE_PARSING, 25 / 100),
      (REPORT_GENERATION, 25 / 100), (POST_PROCESSING, 5 / 100)]"

text \<open>
  The loop over \<open>self.stage_weights.items()\<close>: a weight is added in full when the
  \<open>value\<close> string of its stage is smaller than that of the current stage, and scaled by
  the stage-local progress for the current stage itself.
\<close>

fun accumulate_progress ::
  "ProcessingStage \<Rightarrow> rat \<Rightarrow> (ProcessingStage \<times> rat) list \<Rightarrow> rat \<Rightarrow> rat" where
  "accumulate_progress cur p [] acc = acc"
| "accumulate_progress cur p ((s, weight) # rest) acc =
     accumulate_progress cur p rest
       (if str_lt (stage_value s) (stage_value cur) then acc + weight
        else if s = cur then acc + weight * p
        else acc)"

definition compute_overall_progress :: "ProcessingStage \<Rightarrow> rat \<Rightarrow> rat" where
  "compute_overall_progress cur p = min (accumulate_progress cur p stage_weights 0) 1"

text \<open>
  What the specification asks of the aggregator: the weights of the stages strictly
  before the current one in pipeline order, plus the current weight times the local
  progress. Stated here for comparison with the code.
\<close>

definition spec_overall_progress :: "ProcessingStage \<Rightarrow> rat \<Rightarrow> rat" where
  "spec_overall_progress cur p =
     sum_list (map snd (filter (\<lambda>(s, w). stage_index s < stage_index cur) stage_weights))
     + (case map_of stage_weights cur of Some w \<Rightarrow> w * p | None \<Rightarrow> 0)"

section \<open>Checkpoint detection (PaperProcessingService._check_stage_completed)\<close>

text \<open>\<open>os.path.join\<close> of two components on POSIX.\<close>

definition path_join :: "string \<Rightarrow> string \<Rightarrow> string" where
  "path_join a b =
     (if b \<noteq> [] \<and> hd b = CHR ''/'' then b
      else if a = [] \<or> last a = CHR ''/'' then a @ b
      else a @ ''/'' @ b)"

text \<open>
  The file system is the set of paths for which \<open>os.path.exists\<close> holds.
\<close>

definition possible_report_files :: "string \<Rightarrow> string \<Rightarrow> string list" where
  "possible_report_files out_dir paper_name =
     [path_join out_dir ''final_report.md'',
      path_join out_dir ''report.md'',
      path_join out_dir (paper_name @ ''_report.md'')]"

fun check_stage_completed ::
  "ProcessingStage \<Rightarrow> string \<Rightarrow> string \<Rightarrow> string set \<Rightarrow> bool" where
  "check_stage_completed METADATA_EXTRACTION out_dir paper_name fs =
     (path_join out_dir (paper_name @ ''_metadata.json'') \<in> fs
      \<and> path_join out_dir (paper_name @ ''_first_three_pages.md'') \<in> fs)"
| "check_stage_completed FULL_OCR out_dir paper_name fs =
     (path_join out_dir ''complete.md'' \<in> fs)"
| "check_stage_completed STRUCTURE_PARSING out_dir paper_name fs =
     (path_join out_dir ''paper_structure.json'' \<in> fs
      \<and> path_join out_dir (paper_name @ ''_attribute_tree.json'') \<in> fs)"
| "check_stage_completed REPORT_GENERATION out_dir paper_name fs =
     list_ex (\<lambda>f. f \<in> fs) (possible_report_files out_dir paper_name)"
| "check_stage_completed POST_PROCESSING out_dir paper_name fs = False"

section \<open>Retry with exponential backoff (utils/llm_client.py, LLMClient.get_completion)\<close>

text \<open>
  The exception classes that the \<open>except\<close> clauses of \<open>get_completion\<close> tell apart,
  each carrying \<open>str(e)\<close> where the handler reads it. \<open>OtherException\<close> is any
  other subclass of \<open>Exception\<close>: a missing file, an invalid configuration, a malformed
  response.
\<close>

datatype api_exception =
  APIConnectionError string | APIError string | TimeoutError | OtherException string

datatype api_outcome = Returns string | Raises api_exception

text \<open>
  The outcome of one call of \<open>get_completion\<close>: \<open>Inl\<close> the message of the raised
  \<open>Exception\<close>, \<open>Inr (Some text)\<close> the returned text, \<open>Inr None\<close> when the loop is
  left without a return; the number of calls made to the API; the delays passed to
  \<open>asyncio.sleep\<close>, in seconds and in order.
\<close>

record completion_run =
  outcome :: "string + string option"
  attempts :: nat
  sleeps :: "nat list"

definition msg_connection_failed :: string where
  "msg_connection_failed = [
      CHR 0x41, CHR 0x50, CHR 0x49, CHR 0x20, CHR 0xE8, CHR 0xBF, CHR 0x9E, CHR 0xE6,
      CHR 0x8E, CHR 0xA5, CHR 0xE5, CHR 0xA4, CHR 0xB1, CHR 0xE8, CHR 0xB4, CHR 0xA5,
      CHR 0x3A, CHR 0x20, CHR 0xE8, CHR 0xB6, CHR 0x85, CHR 0xE8, CHR 0xBF, CHR 0x87,
      CHR 0xE9, CHR 0x87, CHR 0x8D, CHR 0xE8, CHR 0xAF, CHR 0x95, CHR 0xE6, CHR 0xAC,
      CHR 0xA1, CHR 0xE6, CHR 0x95, CHR 0xB0]"

definition msg_api_error :: string where
  "msg_api_error = [
      CHR 0x41, CHR 0x50, CHR 0x49, CHR 0x20, CHR 0xE9, CHR 0x94, CHR 0x99, CHR 0xE8,
      CHR 0xAF, CHR 0xAF, CHR 0x3A, CHR 0x20]"

definition msg_request_timeout :: string where
  "msg_request_timeout = [
      CHR 0xE8, CHR 0xAF, CHR 0xB7, CHR 0xE6, CHR 0xB1, CHR 0x82, CHR 0xE8, CHR 0xB6,
      CHR 0x85, CHR 0xE6, CHR 0x97, CHR 0xB6, CHR 0x3A, CHR 0x20, CHR 0xE8, CHR 0xB6,
      CHR 0x85, CHR 0xE8, CHR 0xBF, CHR 0x87, CHR 0xE9, CHR 0x87, CHR 0x8D, CHR 0xE8,
      CHR 0xAF, CHR 0x95, CHR 0xE6, CHR 0xAC, CHR 0xA1, CHR 0xE6, CHR 0x95, CHR 0xB0]"

definition msg_unknown_error :: string where
  "msg_unknown_error = [
      CHR 0xE6, CHR 0x9C, CHR 0xAA, CHR 0xE7, CHR 0x9F, CHR 0xA5, CHR 0xE9, CHR 0x94,
      CHR 0x99, CHR 0xE8, CHR 0xAF, CHR 0xAF, CHR 0x3A, CHR 0x20]"

text \<open>The message of the \<open>Exception\<close> raised once the retries are used up.\<close>

fun exhausted_message :: "api_exception \<Rightarrow> string" where
  "exhausted_message (APIConnectionError m) = msg_connection_failed"
| "exhausted_message (APIError m) = msg_api_error @ m"
| "exhausted_message TimeoutError = msg_request_timeout"
| "exhausted_message (OtherException m) = msg_unknown_error @ m"

text \<open>
  \<open>retry_base_delay\<close> of utils/llm_config.py: 1 in every profile of \<open>LLM_CONFIG\<close>.
  The loop does not read it: it sleeps \<open>2 ** retries\<close> seconds.
\<close>

definition retry_base_delay :: nat where
  "retry_base_delay = 1"

definition MAX_RETRIES :: int where
  "MAX_RETRIES = 5"

text \<open>
  The \<open>while retries <= max_retries\<close> loop. \<open>call k\<close> is the outcome of the API call
  made after \<open>k\<close> earlier calls; every failed call increments \<open>retries\<close>, so the call
  made in an iteration is \<open>call retries\<close>. All four \<open>except\<close> clauses have the same
  shape: increment, raise when \<open>retries > max_retries\<close>, otherwise sleep and loop.
\<close>

function get_completion_loop ::
  "(nat \<Rightarrow> api_outcome) \<Rightarrow> int \<Rightarrow> nat \<Rightarrow> nat list \<Rightarrow> completion_run" where
  "get_completion_loop call max_retries retries slept =
     (if int retries \<le> max_retries then
        (case call retries of
           Returns text \<Rightarrow>
             \<lparr>outcome = Inr (Some text), attempts = retries + 1, sleeps = slept\<rparr>
         | Raises e \<Rightarrow>
             (if int (retries + 1) > max_retries
              then \<lparr>outcome = Inl (exhausted_message e), attempts = retries + 1,
                    sleeps = slept\<rparr>
              else get_completion_loop call max_retries (retries + 1)
                     (slept @ [2 ^ (retries + 1)])))
      else \<lparr>outcome = Inr None, attempts = retries, sleeps = slept\<rparr>)"
  by pat_completeness auto
termination
  by (relation "measure (\<lambda>(call, max_retries, retries, slept). nat (max_retries + 1 - int retries))")
     auto

declare get_completion_loop.simps [simp del]

text \<open>
  \<open>model or self.config["default_model"]\<close> is evaluated before the loop: with no model
  argument (None or the empty string) and no \<open>default_model\<close> in the profile the lookup
  raises KeyError and no call is made. Every profile of \<open>LLM_CONFIG\<close> has a
  \<open>default_model\<close>.
\<close>

definition model_missing :: "string option \<Rightarrow> string option \<Rightarrow> bool" where
  "model_missing model default_model =
     ((model = None \<or> model = Some []) \<and> default_model = None)"

definition get_completion ::
  "(nat \<Rightarrow> api_outcome) \<Rightarrow> string option \<Rightarrow> string option \<Rightarrow> int \<Rightarrow> completion_run" where
  "get_completion call model default_model max_retries =
     (if model_missing model default_model
      then \<lparr>outcome = Inl ([CHR 0x27] @ ''default_model'' @ [CHR 0x27]), attempts = 0,
            sleeps = []\<rparr>
      else get_completion_loop call max_retries 0 [])"

section \<open>Strings and paths used by the service\<close>

text \<open>\<open>str.lower\<close> on the ASCII letters (other bytes are left as they are).\<close>

definition lower_char :: "char \<Rightarrow> char" where
  "lower_char c =
     (let n = (of_char c :: nat) in if 65 \<le> n \<and> n \<le> 90 then char_of (n + 32) else c)"

text \<open>The \<open>in\<close> operator on strings: \<open>sub in s\<close>.\<close>

fun contains_str :: "string \<Rightarrow> string \<Rightarrow> bool" where
  "contains_str sub [] = (sub = [])"
| "contains_str sub (x # xs) = (take (length sub) (x # xs) = sub \<or> contains_str sub xs)"

text \<open>The test of the retry loop of stage 1 on \<open>str(e)\<close>.\<close>

definition is_timeout_message :: "string \<Rightarrow> bool" where
  "is_timeout_message error_msg =
     (contains_str ''timed out'' (map lower_char error_msg)
      \<or> contains_str ''timeout'' (map lower_char error_msg))"

text \<open>\<open>str.replace(old, "")\<close>: the occurrences of \<open>old\<close> are removed from left to right.\<close>

function remove_all :: "string \<Rightarrow> string \<Rightarrow> string" where
  "remove_all old [] = []"
| "remove_all old (x # xs) =
     (if old \<noteq> [] \<and> take (length old) (x # xs) = old
      then remove_all old (drop (length old) (x # xs))
      else x # remove_all old xs)"
  by pat_completeness auto
termination
  by (relation "measure (\<lambda>(old, s). length s)") (auto simp: neq_Nil_conv)

fun split_on :: "char \<Rightarrow> string \<Rightarrow> string list" where
  "split_on c [] = [[]]"
| "split_on c (x # xs) =
     (if x = c then [] # split_on c xs
      else (case split_on c xs of
              [] \<Rightarrow> [[x]]
            | p # ps \<Rightarrow> (x # p) # ps))"

fun rfind :: "char \<Rightarrow> string \<Rightarrow> nat option" where
  "rfind c [] = None"
| "rfind c (x # xs) =
     (case rfind c xs of
        Some i \<Rightarrow> Some (Suc i)
      | None \<Rightarrow> if x = c then Some 0 else None)"

text \<open>
  \<open>Path(p).name\<close> on POSIX: the last component, empty and \<open>.\<close> components dropped.
\<close>

definition path_name :: "string \<Rightarrow> string" where
  "path_name p =
     (case filter (\<lambda>q. q \<noteq> [] \<and> q \<noteq> ''.'') (split_on CHR ''/'' p) of
        [] \<Rightarrow> []
      | q # qs \<Rightarrow> last (q # qs))"

text \<open>
  \<open>Path(p).stem\<close>: the name without its last suffix; a leading or a trailing dot
  starts no suffix (pathlib before Python 3.14).
\<close>

definition path_stem :: "string \<Rightarrow> string" where
  "path_stem p =
     (let n = path_name p in
      case rfind CHR ''.'' n of
        None \<Rightarrow> n
      | Some i \<Rightarrow> if 0 < i \<and> i < length n - 1 then take i n else n)"

text \<open>An f-string field holding an \<open>Optional[str]\<close>.\<close>

definition py_str_opt :: "string option \<Rightarrow> string" where
  "py_str_opt x = (case x of None \<Rightarrow> ''None'' | Some s \<Rightarrow> s)"

text \<open>\<open>sep.join(xs)\<close>.\<close>

fun str_join :: "string \<Rightarrow> string list \<Rightarrow> string" where
  "str_join sep [] = []"
| "str_join sep [x] = x"
| "str_join sep (x # y # ys) = x @ sep @ str_join sep (y # ys)"

text \<open>\<open>d.get(k, default)\<close> on a dict of strings.\<close>

definition dict_get :: "(string \<times> string) list \<Rightarrow> string \<Rightarrow> string \<Rightarrow> string" where
  "dict_get d k dflt = (case map_of d k of None \<Rightarrow> dflt | Some v \<Rightarrow> v)"

section \<open>The world of the service: file system, clock, collaborators\<close>

text \<open>
  \<open>files\<close> is the set of paths for which \<open>os.path.exists\<close> holds, \<open>result_files\<close> the
  \<open>PipelineResult\<close> serialised in a file written by \<open>save_to_file\<close>, \<open>clock\<close> the reading
  of \<open>time.time()\<close>, \<open>hidden\<close> whatever else the collaborators depend on (the network,
  the services they call).
\<close>

record 'h world =
  files :: "string set"
  result_files :: "string \<rightharpoonup> PipelineResult"
  clock :: rat
  hidden :: 'h

text \<open>The dict returned by \<open>Stage5PostProcessor.process_paper_folder\<close>, as far as it is read.\<close>

record post_result =
  post_success :: bool
  post_errors :: "string list"

text \<open>
  What a call raises. \<open>Error (str e)\<close> is an exception \<open>e\<close> of the class \<open>Exception\<close>,
  which \<open>except Exception\<close> catches. \<open>Exit c\<close> is an exception outside that class, which
  no handler of the service catches: the SystemExit of \<open>sys.exit(c)\<close>, which several
  stage modules call when they are imported and a dependency is missing
  (crop_pdf_first_three_page/process_pdf.py, section_data_extractor/tools, the two
  modules of attribute_tree_extractor), a KeyboardInterrupt, a cancelled task.
\<close>

datatype raised = Error string | Exit string

text \<open>
  The collaborators and the operating system, as functions of the world; \<open>Inl\<close> is what
  the call raises.
  \<^item> \<open>path_mkdir\<close>: \<open>Path(d).mkdir(parents=True, exist_ok=True)\<close>;
  \<^item> \<open>import_error\<close>: what a dynamic import raises, if anything (an ImportError, or the
    SystemExit of a module that exits at import);
  \<^item> \<open>stage1_process\<close>: \<open>crop_pdf_first_three_page.process_pdf.process_pdf\<close>, called with
    input_pdf, output_dir, template_path, api_name, crop_params; returns the metadata
    dict or None;
  \<^item> \<open>stage2_process\<close>: \<open>pdf_content_extractor.pdf_ocr.process_pdf\<close>;
  \<^item> \<open>process_paper_structure\<close>: its result is read as a truth value;
  \<^item> \<open>classify_paper\<close>: the construction of \<open>PaperTypeClassifier\<close> and
    \<open>AttributeTreeExtractor\<close> with \<open>CURRENT_API\<close>, then \<open>classifier.classify_paper\<close> with
    paper_name, output_dir, template_path;
  \<^item> \<open>extract_attribute_tree\<close>: \<open>determine_paper_type\<close> on the classification, then
    \<open>extractor.extract_attribute_tree\<close> with paper_name, output_dir and the two templates;
  \<^item> \<open>glob_dir\<close>: \<open>list(Path(d).glob(pattern))\<close> as strings;
  \<^item> \<open>process_paper_report\<close>: returns the path of the final report;
  \<^item> \<open>process_paper_folder\<close>: the construction of \<open>Stage5PostProcessor\<close> and its
    \<open>process_paper_folder\<close>;
  \<^item> \<open>format_exc\<close>: the text of \<open>traceback.format_exc()\<close> for an exception;
  \<^item> \<open>path_type_error\<close>: the message of the TypeError of \<open>Path(None)\<close>;
  \<^item> \<open>write_failure\<close>: the failure of \<open>open(path, 'w')\<close> or of \<open>json.dump\<close> in
    \<open>save_to_file\<close>, with the world it leaves;
  \<^item> \<open>unexpected_error\<close>: an exception raised in the \<open>try\<close> block of \<open>process_paper\<close>
    outside the handlers of the stages, when the block of the given stage is entered.
\<close>

record 'h env =
  current_api :: string
  path_mkdir :: "string \<Rightarrow> 'h world \<Rightarrow> (raised + unit) \<times> 'h world"
  import_error :: "string \<Rightarrow> 'h world \<Rightarrow> raised option"
  stage1_process ::
    "string \<Rightarrow> string \<Rightarrow> string \<Rightarrow> string option \<Rightarrow> (string \<times> rat) list option
      \<Rightarrow> 'h world \<Rightarrow> (raised + (string \<times> pyval) list option) \<times> 'h world"
  stage2_process :: "string \<Rightarrow> string \<Rightarrow> 'h world \<Rightarrow> (raised + unit) \<times> 'h world"
  process_paper_structure ::
    "string option \<Rightarrow> string \<Rightarrow> 'h world \<Rightarrow> (raised + bool) \<times> 'h world"
  classify_paper ::
    "string \<Rightarrow> string \<Rightarrow> string \<Rightarrow> string \<Rightarrow> 'h world \<Rightarrow> (raised + pyval) \<times> 'h world"
  extract_attribute_tree ::
    "string \<Rightarrow> string \<Rightarrow> pyval \<Rightarrow> string \<Rightarrow> string \<Rightarrow> 'h world
      \<Rightarrow> (raised + unit) \<times> 'h world"
  glob_dir :: "string \<Rightarrow> string \<Rightarrow> 'h world \<Rightarrow> string list"
  process_paper_report ::
    "string \<Rightarrow> string \<Rightarrow> 'h world \<Rightarrow> (raised + string option) \<times> 'h world"
  process_paper_folder :: "string \<Rightarrow> 'h world \<Rightarrow> (raised + post_result) \<times> 'h world"
  format_exc :: "string \<Rightarrow> string"
  path_type_error :: string
  write_failure :: "string \<Rightarrow> 'h world \<Rightarrow> (raised \<times> 'h world) option"
  unexpected_error :: "ProcessingStage \<Rightarrow> 'h world \<Rightarrow> raised option"

text \<open>
  The service object: its configuration and whether a progress and an error callback
  are registered.
\<close>

record service =
  config :: PipelineConfig
  progress_callback :: bool
  error_callback :: bool

text \<open>
  The state of a run: the world, and the arguments of the calls made so far to the
  progress callback and to the error callback, in order. A callback is taken to raise
  nothing outside \<open>Exception\<close>: what it raises is caught and logged by the service and
  changes nothing else.
\<close>

record 'h pstate =
  world :: "'h world"
  progress_log :: "ProgressInfo list"
  error_log :: "(ProcessingStage \<times> string) list"

definition notify_progress :: "service \<Rightarrow> ProcessingStage \<Rightarrow> rat \<Rightarrow> 'h pstate \<Rightarrow> 'h pstate" where
  "notify_progress svc s p st =
     (if \<not> progress_callback svc then st
      else st\<lparr>progress_log := progress_log st @
             [\<lparr>current_stage = s, stage_progress = p,
               overall_progress = compute_overall_progress s p\<rparr>]\<rparr>)"

definition notify_error :: "service \<Rightarrow> ProcessingStage \<Rightarrow> string \<Rightarrow> 'h pstate \<Rightarrow> 'h pstate" where
  "notify_error svc s e st =
     (if error_callback svc then st\<lparr>error_log := error_log st @ [(s, e)]\<rparr> else st)"

section \<open>The stages (PaperProcessingService._run_stage1 ... _run_stage5)\<close>

definition msg_stage1_retries_exhausted :: string where
  "msg_stage1_retries_exhausted = [
      CHR 0xE7, CHR 0xAC, CHR 0xAC, CHR 0xE4, CHR 0xB8, CHR 0x80, CHR 0xE9, CHR 0x98,
      CHR 0xB6, CHR 0xE6, CHR 0xAE, CHR 0xB5, CHR 0xE5, CHR 0xA4, CHR 0x84, CHR 0xE7,
      CHR 0x90, CHR 0x86, CHR 0xE5, CHR 0xA4, CHR 0xB1, CHR 0xE8, CHR 0xB4, CHR 0xA5,
      CHR 0xEF, CHR 0xBC, CHR 0x9A, CHR 0xE9, CHR 0x87, CHR 0x8D, CHR 0xE8, CHR 0xAF,
      CHR 0x95, CHR 0xE6, CHR 0xAC, CHR 0xA1, CHR 0xE6, CHR 0x95, CHR 0xB0, CHR 0xE5,
      CHR 0xB7, CHR 0xB2, CHR 0xE7, CHR 0x94, CHR 0xA8, CHR 0xE5, CHR 0xAE, CHR 0x8C]"

definition msg_ocr_output_missing :: string where
  "msg_ocr_output_missing = [
      CHR 0xE5, CHR 0x85, CHR 0xA8, CHR 0xE6, CHR 0x96, CHR 0x87, CHR 0x4F, CHR 0x43,
      CHR 0x52, CHR 0xE8, CHR 0xBE, CHR 0x93, CHR 0xE5, CHR 0x87, CHR 0xBA, CHR 0xE6,
      CHR 0x96, CHR 0x87, CHR 0xE4, CHR 0xBB, CHR 0xB6, CHR 0xE4, CHR 0xB8, CHR 0x8D,
      CHR 0xE5, CHR 0xAD, CHR 0x98, CHR 0xE5, CHR 0x9C, CHR 0xA8, CHR 0x3A, CHR 0x20]"

definition msg_structure_failed :: string where
  "msg_structure_failed = [
      CHR 0xE7, CHR 0xBB, CHR 0x93, CHR 0xE6, CHR 0x9E, CHR 0x84, CHR 0xE5, CHR 0x8C,
      CHR 0x96, CHR 0xE8, CHR 0xA7, CHR 0xA3, CHR 0xE6, CHR 0x9E, CHR 0x90, CHR 0xE5,
      CHR 0xA4, CHR 0x84, CHR 0xE7, CHR 0x90, CHR 0x86, CHR 0xE5, CHR 0xA4, CHR 0xB1,
      CHR 0xE8, CHR 0xB4, CHR 0xA5]"

definition msg_structure_file_missing :: string where
  "msg_structure_file_missing = [
      CHR 0xE6, CHR 0x9C, CHR 0xAA, CHR 0xE6, CHR 0x89, CHR 0xBE, CHR 0xE5, CHR 0x88,
      CHR 0xB0, CHR 0xE7, CHR 0xBB, CHR 0x93, CHR 0xE6, CHR 0x9E, CHR 0x84, CHR 0xE5,
      CHR 0x8C, CHR 0x96, CHR 0xE8, CHR 0xA7, CHR 0xA3, CHR 0xE6, CHR 0x9E, CHR 0x90,
      CHR 0xE6, CHR 0x96, CHR 0x87, CHR 0xE4, CHR 0xBB, CHR 0xB6, CHR 0xEF, CHR 0xBC,
      CHR 0x8C, CHR 0xE6, CHR 0x97, CHR 0xA0, CHR 0xE6, CHR 0xB3, CHR 0x95, CHR 0xE7,
      CHR 0x94, CHR 0x9F, CHR 0xE6, CHR 0x88, CHR 0x90, CHR 0xE6, CHR 0x8A, CHR 0xA5,
      CHR 0xE5, CHR 0x91, CHR 0x8A]"

text \<open>
  Each stage function has the same frame: it notifies the progress 0, creates its
  result with the start time, runs the body of its \<open>try\<close> block, and goes through its
  \<open>except Exception\<close> and \<open>finally\<close> blocks. The body of the \<open>try\<close> block
  (\<open>stage1_try\<close> ... \<open>stage5_try\<close>) returns what it raises or the result it completed.
\<close>

definition stage_start :: "ProcessingStage \<Rightarrow> 'h pstate \<Rightarrow> StageResult" where
  "stage_start s st =
     (new_StageResult s IN_PROGRESS)\<lparr>start_time := Some (clock (world st))\<rparr>"

text \<open>The \<open>except Exception\<close> block shared by the five stage functions.\<close>

definition fail_stage ::
  "'h env \<Rightarrow> service \<Rightarrow> StageResult \<Rightarrow> string \<Rightarrow> 'h pstate \<Rightarrow> StageResult \<times> 'h pstate" where
  "fail_stage env svc r e st =
     (r\<lparr>status := FAILED, error_message := Some e, error_traceback := Some (format_exc env e)\<rparr>,
      notify_error svc (stage r) e st)"

text \<open>The \<open>finally\<close> block shared by the five stage functions; \<open>t0\<close> is the start time.\<close>

definition finish_stage :: "rat \<Rightarrow> 'h pstate \<Rightarrow> StageResult \<Rightarrow> StageResult" where
  "finish_stage t0 st r =
     r\<lparr>end_time := Some (clock (world st)), processing_time := clock (world st) - t0\<rparr>"

text \<open>
  What a stage function does with the outcome of its \<open>try\<close> block: a completed result
  is returned; an \<open>Exception\<close> is caught and makes the result \<open>FAILED\<close>; in both cases the
  \<open>finally\<close> block sets the times. An exception outside \<open>Exception\<close> passes the handler
  and leaves the stage function (\<open>Inl\<close>), the result being dropped.
\<close>

definition stage_outcome ::
  "'h env \<Rightarrow> service \<Rightarrow> StageResult \<Rightarrow> rat \<Rightarrow> (raised + StageResult) \<times> 'h pstate
    \<Rightarrow> (string + StageResult) \<times> 'h pstate" where
  "stage_outcome env svc r t0 x =
     (case x of
        (Inr r', st) \<Rightarrow> (Inr (finish_stage t0 st r'), st)
      | (Inl (Error e), st) \<Rightarrow>
          (case fail_stage env svc r e st of
             (r', st') \<Rightarrow> (Inr (finish_stage t0 st' r'), st'))
      | (Inl (Exit c), st) \<Rightarrow> (Inl c, st))"

text \<open>
  One call of \<open>stage1_process\<close> with its arguments; \<open>template_paths["metadata"]\<close> raises
  KeyError when the key is missing.
\<close>

definition stage1_call ::
  "'h env \<Rightarrow> service \<Rightarrow> string \<Rightarrow> string \<Rightarrow> 'h world
    \<Rightarrow> (raised + (string \<times> pyval) list option) \<times> 'h world" where
  "stage1_call env svc pdf_path out_dir w =
     (case map_of (template_paths (config svc)) ''metadata'' of
        None \<Rightarrow> (Inl (Error ([CHR 0x27] @ ''metadata'' @ [CHR 0x27])), w)
      | Some tp \<Rightarrow>
          stage1_process env pdf_path out_dir tp (api_name (config svc))
            (crop_params (config svc)) w)"

definition stage1_max_retries :: nat where
  "stage1_max_retries = 3"

text \<open>
  The retry loop of stage 1, \<open>while retry_count < max_retries\<close>. The result is what the
  loop leaves (\<open>Inl\<close> what is raised out of it, \<open>Inr\<close> the value of \<open>metadata\<close>) and
  the number of calls of \<open>stage1_process\<close> made so far, \<open>calls\<close> counting those before.
  The \<open>except Exception\<close> clause of the loop retries a timeout and raises anything else
  again; an exception outside \<open>Exception\<close> passes it.
\<close>

function stage1_retry ::
  "'h env \<Rightarrow> service \<Rightarrow> string \<Rightarrow> string \<Rightarrow> nat \<Rightarrow> nat \<Rightarrow> 'h pstate
    \<Rightarrow> ((raised + (string \<times> pyval) list option) \<times> nat) \<times> 'h pstate" where
  "stage1_retry env svc pdf_path out_dir retry_count calls st =
     (if retry_count < stage1_max_retries then
        (case stage1_call env svc pdf_path out_dir (world st) of
           (Inr md, w) \<Rightarrow> ((Inr md, calls + 1), st\<lparr>world := w\<rparr>)
         | (Inl (Exit c), w) \<Rightarrow> ((Inl (Exit c), calls + 1), st\<lparr>world := w\<rparr>)
         | (Inl (Error e), w) \<Rightarrow>
             (if is_timeout_message e \<and> retry_count + 1 < stage1_max_retries
              then stage1_retry env svc pdf_path out_dir (retry_count + 1) (calls + 1)
                     (notify_progress svc METADATA_EXTRACTION (3 / 10) (st\<lparr>world := w\<rparr>))
              else ((Inl (Error e), calls + 1), st\<lparr>world := w\<rparr>)))
      else ((Inr None, calls), st))"
  by pat_completeness auto
termination
  by (relation "measure (\<lambda>(env, svc, pdf_path, out_dir, retry_count, calls, st).
        stage1_max_retries - retry_count)") auto

declare stage1_retry.simps [simp del]

text \<open>
  The world after \<open>n\<close> calls of \<open>stage1_process\<close> made one after the other, each in the
  world that the call before it left: what a loop reaches that does nothing to the
  world between two calls (no sleep, no other call).
\<close>

fun stage1_calls_world ::
  "'h env \<Rightarrow> service \<Rightarrow> string \<Rightarrow> string \<Rightarrow> nat \<Rightarrow> 'h world \<Rightarrow> 'h world" where
  "stage1_calls_world env svc pdf_path out_dir 0 w = w"
| "stage1_calls_world env svc pdf_path out_dir (Suc n) w =
     stage1_calls_world env svc pdf_path out_dir n
       (snd (stage1_call env svc pdf_path out_dir w))"

definition stage1_try ::
  "'h env \<Rightarrow> service \<Rightarrow> string \<Rightarrow> string \<Rightarrow> StageResult \<Rightarrow> 'h pstate
    \<Rightarrow> (raised + StageResult) \<times> 'h pstate" where
  "stage1_try env svc pdf_path out_dir r st1 =
     (case import_error env ''crop_pdf_first_three_page.process_pdf'' (world st1) of
        Some x \<Rightarrow> (Inl x, st1)
      | None \<Rightarrow>
          (case stage1_retry env svc pdf_path out_dir 0 0
                  (notify_progress svc METADATA_EXTRACTION (3 / 10) st1) of
             ((Inl x, n), st2) \<Rightarrow> (Inl x, st2)
           | ((Inr None, n), st2) \<Rightarrow> (Inl (Error msg_stage1_retries_exhausted), st2)
           | ((Inr (Some md), n), st2) \<Rightarrow>
               (Inr (r\<lparr>status := COMPLETED,
                       output_path :=
                         Some (path_join out_dir (path_stem pdf_path @ ''_metadata.json'')),
                       metadata := Some md\<rparr>),
                notify_progress svc METADATA_EXTRACTION 1 st2)))"

definition run_stage1 ::
  "'h env \<Rightarrow> service \<Rightarrow> string \<Rightarrow> string \<Rightarrow> 'h pstate
    \<Rightarrow> (string + StageResult) \<times> 'h pstate" where
  "run_stage1 env svc pdf_path out_dir st0 =
     (let st1 = notify_progress svc METADATA_EXTRACTION 0 st0;
          r = stage_start METADATA_EXTRACTION st1
      in stage_outcome env svc r (clock (world st1))
           (stage1_try env svc pdf_path out_dir r st1))"

definition stage2_try ::
  "'h env \<Rightarrow> service \<Rightarrow> string \<Rightarrow> string \<Rightarrow> StageResult \<Rightarrow> 'h pstate
    \<Rightarrow> (raised + StageResult) \<times> 'h pstate" where
  "stage2_try env svc pdf_path out_dir r st1 =
     (case import_error env ''pdf_content_extractor.pdf_ocr'' (world st1) of
        Some x \<Rightarrow> (Inl x, st1)
      | None \<Rightarrow>
          (let st2 = notify_progress svc FULL_OCR (2 / 10) st1 in
           case stage2_process env pdf_path out_dir (world st2) of
             (Inl x, w) \<Rightarrow> (Inl x, st2\<lparr>world := w\<rparr>)
           | (Inr u, w) \<Rightarrow>
               (let complete_md_path = path_join out_dir ''complete.md'' in
                if complete_md_path \<notin> files w
                then (Inl (Error (msg_ocr_output_missing @ complete_md_path)),
                      st2\<lparr>world := w\<rparr>)
                else (Inr (r\<lparr>status := COMPLETED, output_path := Some complete_md_path\<rparr>),
                      notify_progress svc FULL_OCR 1 (st2\<lparr>world := w\<rparr>)))))"

definition run_stage2 ::
  "'h env \<Rightarrow> service \<Rightarrow> string \<Rightarrow> string \<Rightarrow> 'h pstate
    \<Rightarrow> (string + StageResult) \<times> 'h pstate" where
  "run_stage2 env svc pdf_path out_dir st0 =
     (let st1 = notify_progress svc FULL_OCR 0 st0;
          r = stage_start FULL_OCR st1
      in stage_outcome env svc r (clock (world st1))
           (stage2_try env svc pdf_path out_dir r st1))"

definition stage3_try ::
  "'h env \<Rightarrow> service \<Rightarrow> string option \<Rightarrow> string \<Rightarrow> StageResult \<Rightarrow> 'h pstate
    \<Rightarrow> (raised + StageResult) \<times> 'h pstate" where
  "stage3_try env svc complete_md_path out_dir r st1 =
     (let tp = template_paths (config svc) in
      case import_error env ''section_data_extractor.integrated_processor'' (world st1) of
        Some x \<Rightarrow> (Inl x, st1)
      | None \<Rightarrow>
     (let st2 = notify_progress svc STRUCTURE_PARSING (2 / 10) st1 in
      case process_paper_structure env complete_md_path out_dir (world st2) of
        (Inl x, w2) \<Rightarrow> (Inl x, st2\<lparr>world := w2\<rparr>)
      | (Inr structure_success, w2) \<Rightarrow>
     (if \<not> structure_success
      then (Inl (Error msg_structure_failed), st2\<lparr>world := w2\<rparr>)
      else
     (let st3 = notify_progress svc STRUCTURE_PARSING (5 / 10) (st2\<lparr>world := w2\<rparr>) in
      case import_error env ''attribute_tree_extractor'' (world st3) of
        Some x \<Rightarrow> (Inl x, st3)
      | None \<Rightarrow>
     (case complete_md_path of
        None \<Rightarrow> (Inl (Error (path_type_error env)), st3)
      | Some md_path \<Rightarrow>
     (let paper_name = remove_all ''_full'' (path_stem md_path) in
      case classify_paper env (current_api env) paper_name out_dir
             (dict_get tp ''paper_type_classify'' ''resources/paper_type_classify.md'')
             (world st3) of
        (Inl x, w3) \<Rightarrow> (Inl x, st3\<lparr>world := w3\<rparr>)
      | (Inr classification_result, w3) \<Rightarrow>
     (let st4 = notify_progress svc STRUCTURE_PARSING (7 / 10) (st3\<lparr>world := w3\<rparr>) in
      case extract_attribute_tree env paper_name out_dir classification_result
             (dict_get tp ''extract_attribute_tree_empirical''
                ''resources/extract_attribute_tree_empirical.md'')
             (dict_get tp ''extract_attribute_tree_structural''
                ''resources/extract_attribute_tree_structural.md'')
             (world st4) of
        (Inl x, w4) \<Rightarrow> (Inl x, st4\<lparr>world := w4\<rparr>)
      | (Inr u, w4) \<Rightarrow>
          (Inr (r\<lparr>status := COMPLETED,
                  output_path :=
                    Some (path_join out_dir (paper_name @ ''_attribute_tree.json''))\<rparr>),
           notify_progress svc STRUCTURE_PARSING 1 (st4\<lparr>world := w4\<rparr>)))))))))"

definition run_stage3 ::
  "'h env \<Rightarrow> service \<Rightarrow> string option \<Rightarrow> string \<Rightarrow> 'h pstate
    \<Rightarrow> (string + StageResult) \<times> 'h pstate" where
  "run_stage3 env svc complete_md_path out_dir st0 =
     (let st1 = notify_progress svc STRUCTURE_PARSING 0 st0;
          r = stage_start STRUCTURE_PARSING st1
      in stage_outcome env svc r (clock (world st1))
           (stage3_try env svc complete_md_path out_dir r st1))"

definition stage4_try ::
  "'h env \<Rightarrow> service \<Rightarrow> string option \<Rightarrow> string \<Rightarrow> StageResult \<Rightarrow> 'h pstate
    \<Rightarrow> (raised + StageResult) \<times> 'h pstate" where
  "stage4_try env svc structure_json_path out_dir r st1 =
     (let st2 = notify_progress svc REPORT_GENERATION (2 / 10) st1 in
      case structure_json_path of
        None \<Rightarrow> (Inl (Error (path_type_error env)), st2)
      | Some json_path \<Rightarrow>
     (let found = glob_dir env out_dir ''*_paper_structure.json'' (world st2);
          structure_files =
            (if found = [] then glob_dir env out_dir ''paper_structure.json'' (world st2)
             else found)
      in case structure_files of
        [] \<Rightarrow> (Inl (Error msg_structure_file_missing), st2)
      | structure_json_file # others \<Rightarrow>
     (let st3 = notify_progress svc REPORT_GENERATION (5 / 10) st2 in
      case import_error env ''report_generator.LLM_for_paper_reading_updated'' (world st3) of
        Some x \<Rightarrow> (Inl x, st3)
      | None \<Rightarrow>
     (case process_paper_report env structure_json_file out_dir (world st3) of
        (Inl x, w) \<Rightarrow> (Inl x, st3\<lparr>world := w\<rparr>)
      | (Inr final_report, w) \<Rightarrow>
          (Inr (r\<lparr>status := COMPLETED, output_path := final_report\<rparr>),
           notify_progress svc REPORT_GENERATION 1 (st3\<lparr>world := w\<rparr>))))))"

definition run_stage4 ::
  "'h env \<Rightarrow> service \<Rightarrow> string option \<Rightarrow> string \<Rightarrow> 'h pstate
    \<Rightarrow> (string + StageResult) \<times> 'h pstate" where
  "run_stage4 env svc structure_json_path out_dir st0 =
     (let st1 = notify_progress svc REPORT_GENERATION 0 st0;
          r = stage_start REPORT_GENERATION st1
      in stage_outcome env svc r (clock (world st1))
           (stage4_try env svc structure_json_path out_dir r st1))"

text \<open>
  In the fifth stage a post-processor that reports a failure makes the result \<open>FAILED\<close>
  inside the \<open>try\<close> block, without an exception and without a call of the error callback.
\<close>

definition stage5_try ::
  "'h env \<Rightarrow> service \<Rightarrow> string \<Rightarrow> StageResult \<Rightarrow> 'h pstate
    \<Rightarrow> (raised + StageResult) \<times> 'h pstate" where
  "stage5_try env svc out_dir r st1 =
     (let st2 = notify_progress svc POST_PROCESSING (3 / 10) st1 in
      case import_error env ''tools.stage5_post_processor'' (world st2) of
        Some x \<Rightarrow> (Inl x, st2)
      | None \<Rightarrow>
     (case process_paper_folder env out_dir (world st2) of
        (Inl x, w) \<Rightarrow> (Inl x, st2\<lparr>world := w\<rparr>)
      | (Inr post, w) \<Rightarrow>
          (if post_success post
           then (Inr (r\<lparr>status := COMPLETED, output_path := Some out_dir\<rparr>),
                 notify_progress svc POST_PROCESSING 1 (st2\<lparr>world := w\<rparr>))
           else (Inr (r\<lparr>status := FAILED,
                        error_message := Some (str_join ''; '' (post_errors post))\<rparr>),
                 st2\<lparr>world := w\<rparr>))))"

definition run_stage5 ::
  "'h env \<Rightarrow> service \<Rightarrow> string \<Rightarrow> 'h pstate \<Rightarrow> (string + StageResult) \<times> 'h pstate" where
  "run_stage5 env svc out_dir st0 =
     (let st1 = notify_progress svc POST_PROCESSING 0 st0;
          r = stage_start POST_PROCESSING st1
      in stage_outcome env svc r (clock (world st1)) (stage5_try env svc out_dir r st1))"

section \<open>The orchestrator (PaperProcessingService.process_paper)\<close>

text \<open>
  The prefix of \<open>pipeline_error\<close> for a failed stage: the words "first stage failed: ",
  "second stage failed: " and so on, one literal per stage in the source.
\<close>

fun msg_stage_failed :: "ProcessingStage \<Rightarrow> string" where
  "msg_stage_failed METADATA_EXTRACTION = [
      CHR 0xE7, CHR 0xAC, CHR 0xAC, CHR 0xE4, CHR 0xB8, CHR 0x80, CHR 0xE9, CHR 0x98,
      CHR 0xB6, CHR 0xE6, CHR 0xAE, CHR 0xB5, CHR 0xE5, CHR 0xA4, CHR 0xB1, CHR 0xE8,
      CHR 0xB4, CHR 0xA5, CHR 0x3A, CHR 0x20]"
| "msg_stage_failed FULL_OCR = [
      CHR 0xE7, CHR 0xAC, CHR 0xAC, CHR 0xE4, CHR 0xBA, CHR 0x8C, CHR 0xE9, CHR 0x98,
      CHR 0xB6, CHR 0xE6, CHR 0xAE, CHR 0xB5, CHR 0xE5, CHR 0xA4, CHR 0xB1, CHR 0xE8,
      CHR 0xB4, CHR 0xA5, CHR 0x3A, CHR 0x20]"
| "msg_stage_failed STRUCTURE_PARSING = [
      CHR 0xE7, CHR 0xAC, CHR 0xAC, CHR 0xE4, CHR 0xB8, CHR 0x89, CHR 0xE9, CHR 0x98,
      CHR 0xB6, CHR 0xE6, CHR 0xAE, CHR 0xB5, CHR 0xE5, CHR 0xA4, CHR 0xB1, CHR 0xE8,
      CHR 0xB4, CHR 0xA5, CHR 0x3A, CHR 0x20]"
| "msg_stage_failed REPORT_GENERATION = [
      CHR 0xE7, CHR 0xAC, CHR 0xAC, CHR 0xE5, CHR 0x9B, CHR 0x9B, CHR 0xE9, CHR 0x98,
      CHR 0xB6, CHR 0xE6, CHR 0xAE, CHR 0xB5, CHR 0xE5, CHR 0xA4, CHR 0xB1, CHR 0xE8,
      CHR 0xB4, CHR 0xA5, CHR 0x3A, CHR 0x20]"
| "msg_stage_failed POST_PROCESSING = [
      CHR 0xE7, CHR 0xAC, CHR 0xAC, CHR 0xE4, CHR 0xBA, CHR 0x94, CHR 0xE9, CHR 0x98,
      CHR 0xB6, CHR 0xE6, CHR 0xAE, CHR 0xB5, CHR 0xE5, CHR 0xA4, CHR 0xB1, CHR 0xE8,
      CHR 0xB4, CHR 0xA5, CHR 0x3A, CHR 0x20]"

definition msg_pipeline_exception :: string where
  "msg_pipeline_exception = [
      CHR 0xE6, CHR 0xB5, CHR 0x81, CHR 0xE6, CHR 0xB0, CHR 0xB4, CHR 0xE7, CHR 0xBA,
      CHR 0xBF, CHR 0xE5, CHR 0xBC, CHR 0x82, CHR 0xE5, CHR 0xB8, CHR 0xB8, CHR 0x3A,
      CHR 0x20]"

text \<open>The \<open>StageResult\<close> built for a stage that the checkpoint detector reports complete.\<close>

definition checkpoint_result :: "ProcessingStage \<Rightarrow> rat \<Rightarrow> string \<Rightarrow> StageResult" where
  "checkpoint_result s t path =
     (new_StageResult s COMPLETED)
       \<lparr>start_time := Some t, end_time := Some t, processing_time := 0,
        output_path := Some path\<rparr>"

text \<open>
  \<open>next((f for f in possible_report_files if os.path.exists(f)), possible_report_files[0])\<close>.
\<close>

definition first_existing_report :: "string \<Rightarrow> string \<Rightarrow> string set \<Rightarrow> string" where
  "first_existing_report out_dir doc fs =
     (case filter (\<lambda>f. f \<in> fs) (possible_report_files out_dir doc) of
        [] \<Rightarrow> path_join out_dir ''final_report.md''
      | f # rest \<Rightarrow> f)"

text \<open>
  The four \<open>if self._check_stage_completed(...) ... else ...\<close> blocks: \<open>Inr\<close> the result
  of the stage, \<open>Inl\<close> what leaves the stage function uncaught.
\<close>

definition resolve_stage1 ::
  "'h env \<Rightarrow> service \<Rightarrow> string \<Rightarrow> string \<Rightarrow> string \<Rightarrow> 'h pstate
    \<Rightarrow> (string + StageResult) \<times> 'h pstate" where
  "resolve_stage1 env svc pdf_path out_dir doc st =
     (if check_stage_completed METADATA_EXTRACTION out_dir doc (files (world st))
      then (Inr (checkpoint_result METADATA_EXTRACTION (clock (world st))
                   (path_join out_dir (doc @ ''_metadata.json''))),
            notify_progress svc METADATA_EXTRACTION 1 st)
      else run_stage1 env svc pdf_path out_dir st)"

definition resolve_stage2 ::
  "'h env \<Rightarrow> service \<Rightarrow> string \<Rightarrow> string \<Rightarrow> string \<Rightarrow> 'h pstate
    \<Rightarrow> (string + StageResult) \<times> 'h pstate" where
  "resolve_stage2 env svc pdf_path out_dir doc st =
     (if check_stage_completed FULL_OCR out_dir doc (files (world st))
      then (Inr (checkpoint_result FULL_OCR (clock (world st))
                   (path_join out_dir ''complete.md'')),
            notify_progress svc FULL_OCR 1 st)
      else run_stage2 env svc pdf_path out_dir st)"

definition resolve_stage3 ::
  "'h env \<Rightarrow> service \<Rightarrow> StageResult \<Rightarrow> string \<Rightarrow> string \<Rightarrow> 'h pstate
    \<Rightarrow> (string + StageResult) \<times> 'h pstate" where
  "resolve_stage3 env svc stage2_result out_dir doc st =
     (if check_stage_completed STRUCTURE_PARSING out_dir doc (files (world st))
      then (Inr (checkpoint_result STRUCTURE_PARSING (clock (world st))
                   (path_join out_dir (doc @ ''_attribute_tree.json''))),
            notify_progress svc STRUCTURE_PARSING 1 st)
      else run_stage3 env svc (output_path stage2_result) out_dir st)"

definition resolve_stage4 ::
  "'h env \<Rightarrow> service \<Rightarrow> StageResult \<Rightarrow> string \<Rightarrow> string \<Rightarrow> 'h pstate
    \<Rightarrow> (string + StageResult) \<times> 'h pstate" where
  "resolve_stage4 env svc stage3_result out_dir doc st =
     (if check_stage_completed REPORT_GENERATION out_dir doc (files (world st))
      then (Inr (checkpoint_result REPORT_GENERATION (clock (world st))
                   (first_existing_report out_dir doc (files (world st)))),
            notify_progress svc REPORT_GENERATION 1 st)
      else run_stage4 env svc (output_path stage3_result) out_dir st)"

text \<open>\<open>overall_status\<close> and \<open>pipeline_error\<close> after a stage that did not succeed.\<close>

definition fail_pipeline :: "StageResult \<Rightarrow> PipelineResult \<Rightarrow> PipelineResult" where
  "fail_pipeline r res =
     res\<lparr>overall_status := FAILED,
         pipeline_error := Some (msg_stage_failed (stage r) @ py_str_opt (error_message r))\<rparr>"

text \<open>
  The body of the \<open>try\<close> block, from the last stage back to the first. Each function
  returns what left the block (None when the block ran to its end or to a \<open>return\<close>),
  the result object as mutated so far, and the state.
\<close>

definition body_stage5 ::
  "'h env \<Rightarrow> service \<Rightarrow> string \<Rightarrow> StageResult \<Rightarrow> StageResult \<Rightarrow> StageResult
    \<Rightarrow> PipelineResult \<Rightarrow> 'h pstate \<Rightarrow> (raised option \<times> PipelineResult) \<times> 'h pstate" where
  "body_stage5 env svc out_dir r1 r3 r4 res st =
     (case unexpected_error env POST_PROCESSING (world st) of
        Some x \<Rightarrow> ((Some x, res), st)
      | None \<Rightarrow>
          (case run_stage5 env svc out_dir st of
             (Inl c, st5) \<Rightarrow> ((Some (Exit c), res), st5)
           | (Inr r5, st5) \<Rightarrow>
               (if success r5
                then ((None, (add_stage_result r5 res)
                        \<lparr>overall_status := COMPLETED,
                         final_report_path := output_path r4,
                         metadata_path := output_path r1,
                         structure_path := output_path r3\<rparr>), st5)
                else ((None, fail_pipeline r5 (add_stage_result r5 res)), st5))))"

definition body_stage4 ::
  "'h env \<Rightarrow> service \<Rightarrow> string \<Rightarrow> string \<Rightarrow> StageResult \<Rightarrow> StageResult
    \<Rightarrow> PipelineResult \<Rightarrow> 'h pstate \<Rightarrow> (raised option \<times> PipelineResult) \<times> 'h pstate" where
  "body_stage4 env svc out_dir doc r1 r3 res st =
     (case unexpected_error env REPORT_GENERATION (world st) of
        Some x \<Rightarrow> ((Some x, res), st)
      | None \<Rightarrow>
          (case resolve_stage4 env svc r3 out_dir doc st of
             (Inl c, st4) \<Rightarrow> ((Some (Exit c), res), st4)
           | (Inr r4, st4) \<Rightarrow>
               (if \<not> success r4
                then ((None, fail_pipeline r4 (add_stage_result r4 res)), st4)
                else body_stage5 env svc out_dir r1 r3 r4 (add_stage_result r4 res) st4)))"

definition body_stage3 ::
  "'h env \<Rightarrow> service \<Rightarrow> string \<Rightarrow> string \<Rightarrow> StageResult \<Rightarrow> StageResult
    \<Rightarrow> PipelineResult \<Rightarrow> 'h pstate \<Rightarrow> (raised option \<times> PipelineResult) \<times> 'h pstate" where
  "body_stage3 env svc out_dir doc r1 r2 res st =
     (case unexpected_error env STRUCTURE_PARSING (world st) of
        Some x \<Rightarrow> ((Some x, res), st)
      | None \<Rightarrow>
          (case resolve_stage3 env svc r2 out_dir doc st of
             (Inl c, st3) \<Rightarrow> ((Some (Exit c), res), st3)
           | (Inr r3, st3) \<Rightarrow>
               (if \<not> success r3
                then ((None, fail_pipeline r3 (add_stage_result r3 res)), st3)
                else body_stage4 env svc out_dir doc r1 r3 (add_stage_result r3 res) st3)))"

definition body_stage2 ::
  "'h env \<Rightarrow> service \<Rightarrow> string \<Rightarrow> string \<Rightarrow> string \<Rightarrow> StageResult
    \<Rightarrow> PipelineResult \<Rightarrow> 'h pstate \<Rightarrow> (raised option \<times> PipelineResult) \<times> 'h pstate" where
  "body_stage2 env svc pdf_path out_dir doc r1 res st =
     (case unexpected_error env FULL_OCR (world st) of
        Some x \<Rightarrow> ((Some x, res), st)
      | None \<Rightarrow>
          (case resolve_stage2 env svc pdf_path out_dir doc st of
             (Inl c, st2) \<Rightarrow> ((Some (Exit c), res), st2)
           | (Inr r2, st2) \<Rightarrow>
               (if \<not> success r2
                then ((None, fail_pipeline r2 (add_stage_result r2 res)), st2)
                else body_stage3 env svc out_dir doc r1 r2 (add_stage_result r2 res) st2)))"

definition try_body ::
  "'h env \<Rightarrow> service \<Rightarrow> string \<Rightarrow> string \<Rightarrow> string
    \<Rightarrow> PipelineResult \<Rightarrow> 'h pstate \<Rightarrow> (raised option \<times> PipelineResult) \<times> 'h pstate" where
  "try_body env svc pdf_path out_dir doc res st =
     (case unexpected_error env METADATA_EXTRACTION (world st) of
        Some x \<Rightarrow> ((Some x, res), st)
      | None \<Rightarrow>
          (case resolve_stage1 env svc pdf_path out_dir doc st of
             (Inl c, st1) \<Rightarrow> ((Some (Exit c), res), st1)
           | (Inr r1, st1) \<Rightarrow>
               (if \<not> success r1
                then ((None, fail_pipeline r1 (add_stage_result r1 res)), st1)
                else body_stage2 env svc pdf_path out_dir doc r1 (add_stage_result r1 res) st1)))"

text \<open>
  The \<open>except Exception\<close> block of \<open>process_paper\<close>: the failed result it adds names the
  first stage, the "default stage" of the source, whatever stage was current.
\<close>

definition handle_exception :: "'h env \<Rightarrow> string \<Rightarrow> PipelineResult \<Rightarrow> PipelineResult" where
  "handle_exception env e res =
     add_stage_result
       ((new_StageResult METADATA_EXTRACTION FAILED)
          \<lparr>error_message := Some e, error_traceback := Some (format_exc env e)\<rparr>)
       (res\<lparr>overall_status := FAILED, pipeline_error := Some (msg_pipeline_exception @ e)\<rparr>)"

text \<open>\<open>PipelineResult.save_to_file\<close>: \<open>Inl\<close> what a failed write raises.\<close>

definition save_to_file ::
  "'h env \<Rightarrow> string \<Rightarrow> PipelineResult \<Rightarrow> 'h world \<Rightarrow> (raised + unit) \<times> 'h world" where
  "save_to_file env file_path res w =
     (case write_failure env file_path w of
        Some (x, w') \<Rightarrow> (Inl x, w')
      | None \<Rightarrow>
          (Inr (), w\<lparr>files := insert file_path (files w),
                      result_files := (result_files w)(file_path \<mapsto> res)\<rparr>))"

text \<open>The \<open>PipelineResult\<close> created at the start of a run.\<close>

definition initial_result :: "string \<Rightarrow> string \<Rightarrow> string \<Rightarrow> rat \<Rightarrow> PipelineResult" where
  "initial_result pdf_path out_dir doc t0 =
     \<lparr>input_pdf = pdf_path, output_dir = out_dir, pdf_name = doc,
      overall_status = IN_PROGRESS, run_start_time = Some t0,
      run_end_time = None, total_processing_time = 0, stages = [],
      final_report_path = None, metadata_path = None, structure_path = None,
      pipeline_error = None\<rparr>"

text \<open>
  The result object after the \<open>except Exception\<close> block of \<open>process_paper\<close>: only an
  \<open>Exception\<close> enters the block.
\<close>

definition after_handler ::
  "'h env \<Rightarrow> raised option \<Rightarrow> PipelineResult \<Rightarrow> PipelineResult" where
  "after_handler env exc res =
     (case exc of
        None \<Rightarrow> res
      | Some (Error e) \<Rightarrow> handle_exception env e res
      | Some (Exit c) \<Rightarrow> res)"

text \<open>
  \<open>process_paper\<close>. The result is \<open>Inl\<close> what reaches the caller, or \<open>Inr\<close> the returned
  \<open>PipelineResult\<close>. The directory is created before the \<open>try\<close>. The \<open>finally\<close> block
  sets the end time and saves the result on every way out of the \<open>try\<close> block; after
  it, an exception outside \<open>Exception\<close> that left the \<open>try\<close> block goes on to the caller.
\<close>

definition process_paper ::
  "'h env \<Rightarrow> service \<Rightarrow> string \<Rightarrow> 'h pstate \<Rightarrow> (raised + PipelineResult) \<times> 'h pstate" where
  "process_paper env svc pdf_path st =
     (let t0 = clock (world st);
          doc = path_stem pdf_path;
          out_dir = path_join (config_output_dir (config svc)) doc
      in case path_mkdir env out_dir (world st) of
           (Inl x, w) \<Rightarrow> (Inl x, st\<lparr>world := w\<rparr>)
         | (Inr u, w) \<Rightarrow>
        (case try_body env svc pdf_path out_dir doc (initial_result pdf_path out_dir doc t0)
                (st\<lparr>world := w\<rparr>) of
           ((exc, res1), st1) \<Rightarrow>
        (let res2 = after_handler env exc res1;
             t1 = clock (world st1);
             res3 = res2\<lparr>run_end_time := Some t1, total_processing_time := t1 - t0\<rparr>
         in case save_to_file env (path_join out_dir ''pipeline_result.json'') res3 (world st1) of
              (Inl x, w') \<Rightarrow> (Inl x, st1\<lparr>world := w'\<rparr>)
            | (Inr u', w') \<Rightarrow>
                (case exc of
                   Some (Exit c) \<Rightarrow> (Inl (Exit c), st1\<lparr>world := w'\<rparr>)
                 | Some (Error e) \<Rightarrow> (Inr res3, st1\<lparr>world := w'\<rparr>)
                 | None \<Rightarrow> (Inr res3, st1\<lparr>world := w'\<rparr>)))))"

section \<open>Invariants of a run\<close>

text \<open>
  \<open>content_done k res\<close>: the result object holds a \<open>COMPLETED\<close> result for each of the
  first \<open>k\<close> stages and nothing for the others. \<open>halted_at_failure\<close> and
  \<open>post_processing_decides\<close> describe the result object at the end of the \<open>try\<close> block.
\<close>

definition content_done :: "nat \<Rightarrow> PipelineResult \<Rightarrow> bool" where
  "content_done k res =
     (\<forall>s. (stage_index s < k \<longrightarrow> (\<exists>r. map_of (stages res) s = Some r \<and> status r = COMPLETED))
        \<and> (k \<le> stage_index s \<longrightarrow> map_of (stages res) s = None))"

definition halted_at_failure :: "PipelineResult \<Rightarrow> bool" where
  "halted_at_failure res =
     (\<forall>s r. s \<noteq> POST_PROCESSING \<and> map_of (stages res) s = Some r \<and> status r \<noteq> COMPLETED \<longrightarrow>
        (\<forall>s'. stage_index s < stage_index s' \<longrightarrow> map_of (stages res) s' = None)
        \<and> overall_status res = FAILED
        \<and> pipeline_error res = Some (msg_stage_failed s @ py_str_opt (error_message r)))"

definition post_processing_decides :: "PipelineResult \<Rightarrow> bool" where
  "post_processing_decides res =
     ((\<forall>s. s \<noteq> POST_PROCESSING \<longrightarrow>
          (\<exists>r. map_of (stages res) s = Some r \<and> status r = COMPLETED)) \<longrightarrow>
        (\<exists>r5. map_of (stages res) POST_PROCESSING = Some r5
           \<and> (overall_status res = COMPLETED \<longleftrightarrow> status r5 = COMPLETED)
           \<and> (status r5 \<noteq> COMPLETED \<longrightarrow> overall_status res = FAILED
                \<and> pipeline_error res
                    = Some (msg_stage_failed POST_PROCESSING @ py_str_opt (error_message r5)))))"

definition orderly :: "PipelineResult \<Rightarrow> bool" where
  "orderly res = (halted_at_failure res \<and> post_processing_decides res)"

text \<open>
  \<open>emits_only P st st'\<close>: from \<open>st\<close> to \<open>st'\<close> the progress callback was called only for
  stages that satisfy \<open>P\<close>.
\<close>

definition emits_only :: "(ProcessingStage \<Rightarrow> bool) \<Rightarrow> 'h pstate \<Rightarrow> 'h pstate \<Rightarrow> bool" where
  "emits_only P st st' =
     (\<exists>evs. progress_log st' = progress_log st @ evs \<and> (\<forall>p \<in> set evs. P (current_stage p)))"

text \<open>
  What holds of the outcome of a part of the \<open>try\<close> block that starts in the state \<open>st\<close>
  and ends in \<open>st'\<close>: when nothing leaves the block the result object is \<open>orderly\<close>, and
  when it holds a content stage that did not complete the progress callback was not
  called for the post-processing stage; when something leaves the block, the result
  object holds completed stages only.
\<close>

definition try_block_inv ::
  "raised option \<Rightarrow> PipelineResult \<Rightarrow> 'h pstate \<Rightarrow> 'h pstate \<Rightarrow> bool" where
  "try_block_inv exc res st st' =
     ((exc = None \<longrightarrow>
         orderly res
         \<and> (\<forall>s r. s \<noteq> POST_PROCESSING \<and> map_of (stages res) s = Some r
                \<and> status r \<noteq> COMPLETED \<longrightarrow>
              emits_only (\<lambda>s. s \<noteq> POST_PROCESSING) st st'))
      \<and> (exc \<noteq> None \<longrightarrow> (\<exists>k. content_done k res)))"

text \<open>
  Two services read alike by the orchestrator: the same callbacks registered, and
  configurations that agree on the fields the orchestrator and the stages read.
\<close>

definition same_reads :: "service \<Rightarrow> service \<Rightarrow> bool" where
  "same_reads a b =
     (progress_callback a = progress_callback b \<and> error_callback a = error_callback b
      \<and> config_output_dir (config a) = config_output_dir (config b)
      \<and> api_name (config a) = api_name (config b)
      \<and> template_paths (config a) = template_paths (config b)
      \<and> crop_params (config a) = crop_params (config b))"

section \<open>Concrete configurations, services, worlds and collaborators\<close>

text \<open>\<open>PipelineConfig()\<close> with its defaults, and a service with both callbacks registered.\<close>

definition default_config :: PipelineConfig where
  "default_config =
     \<lparr>config_output_dir = ''output'', api_name = Some ''wd_gemini2'',
      template_paths =
        [(''metadata'', ''resources/extract_metadata_from_face_page.md''),
         (''structure'', ''resources/extract_frame_and_tabs_figs.md''),
         (''abstract_intro'', ''resources/extract_abstract_intro.md'')],
      llm_config = [(''temperature'', PyNum (2 / 10)), (''max_tokens'', PyNum 100000)],
      crop_params = None, keep_intermediate_files = False,
      enable_progress_callback = True, max_retry_attempts = 3\<rparr>"

definition observed_service :: service where
  "observed_service =
     \<lparr>config = default_config, progress_callback = True, error_callback = True\<rparr>"

text \<open>
  An output directory \<open>output/paper\<close> that holds the artifacts of the four content
  stages of \<open>paper.pdf\<close>, and one that holds those of the first two stages only.
\<close>

definition checkpointed_files :: "string set" where
  "checkpointed_files =
     {''output/paper/paper_metadata.json'', ''output/paper/paper_first_three_pages.md'',
      ''output/paper/complete.md'', ''output/paper/paper_structure.json'',
      ''output/paper/paper_attribute_tree.json'', ''output/paper/final_report.md''}"

definition half_done_files :: "string set" where
  "half_done_files =
     {''output/paper/paper_metadata.json'', ''output/paper/paper_first_three_pages.md'',
      ''output/paper/complete.md''}"

definition initial_state :: "string set \<Rightarrow> unit pstate" where
  "initial_state fs =
     \<lparr>world = \<lparr>files = fs, result_files = Map.empty, clock = 0, hidden = ()\<rparr>,
      progress_log = [], error_log = []\<rparr>"

text \<open>
  Collaborators that all succeed and leave the world as it is, an operating system
  that never fails, and no unexpected error.
\<close>

definition quiet_env :: "unit env" where
  "quiet_env =
     \<lparr>current_api = ''wd_gemini2'',
      path_mkdir = (\<lambda>d w. (Inr (), w)),
      import_error = (\<lambda>m w. None),
      stage1_process = (\<lambda>pdf d tp api crop w. (Inr (Some []), w)),
      stage2_process = (\<lambda>pdf d w. (Inr (), w)),
      process_paper_structure = (\<lambda>md d w. (Inr True, w)),
      classify_paper = (\<lambda>api n d tp w. (Inr PyNone, w)),
      extract_attribute_tree = (\<lambda>n d c te ts w. (Inr (), w)),
      glob_dir = (\<lambda>d pat w. []),
      process_paper_report = (\<lambda>j d w. (Inr None, w)),
      process_paper_folder = (\<lambda>d w. (Inr \<lparr>post_success = True, post_errors = []\<rparr>, w)),
      format_exc = (\<lambda>e. e),
      path_type_error = ''expected str, bytes or os.PathLike object, not NoneType'',
      write_failure = (\<lambda>f w. None),
      unexpected_error = (\<lambda>s w. None)\<rparr>"

text \<open>The same, with a post-processor that reports a failure.\<close>

definition failing_post_env :: "unit env" where
  "failing_post_env =
     quiet_env\<lparr>process_paper_folder :=
       (\<lambda>d w. (Inr \<lparr>post_success = False, post_errors = [''Permission denied'']\<rparr>, w))\<rparr>"

text \<open>The same, with an exception in the \<open>try\<close> block when the third stage is entered.\<close>

definition faulty_env :: "unit env" where
  "faulty_env =
     quiet_env\<lparr>unexpected_error :=
       (\<lambda>s w. if s = STRUCTURE_PARSING then Some (Error ''unexpected'') else None)\<rparr>"

text \<open>The same, with an output directory that cannot be created.\<close>

definition no_mkdir_env :: "unit env" where
  "no_mkdir_env = quiet_env\<lparr>path_mkdir := (\<lambda>d w. (Inl (Error ''Permission denied''), w))\<rparr>"

text \<open>The same, with a first stage whose collaborator raises a non-timeout error.\<close>

definition failing_stage1_env :: "unit env" where
  "failing_stage1_env =
     quiet_env\<lparr>stage1_process := (\<lambda>pdf d tp api crop w. (Inl (Error ''No such file''), w))\<rparr>"

text \<open>
  The same, with a first stage whose collaborator takes one second and times out at
  every call.
\<close>

definition timeout_env :: "unit env" where
  "timeout_env =
     quiet_env\<lparr>stage1_process :=
       (\<lambda>pdf d tp api crop w. (Inl (Error ''Request timed out''), w\<lparr>clock := clock w + 1\<rparr>))\<rparr>"

text \<open>
  The same, with a module of the first stage that calls \<open>sys.exit(1)\<close> when it is
  imported (a dependency is missing).
\<close>

definition exiting_import_env :: "unit env" where
  "exiting_import_env =
     quiet_env\<lparr>import_error :=
       (\<lambda>m w. if m = ''crop_pdf_first_three_page.process_pdf'' then Some (Exit ''1'')
              else None)\<rparr>"

section \<open>Properties of the retry loop\<close>

lemma get_completion_loop_always_failing:
  "\<forall>k. \<exists>e. call k = Raises e \<Longrightarrow> int retries \<le> m \<Longrightarrow>
     attempts (get_completion_loop call m retries slept) = nat m + 1
     \<and> sleeps (get_completion_loop call m retries slept)
          = slept @ map (\<lambda>k. 2 ^ k) [retries + 1 ..< nat m + 1]
     \<and> (\<exists>e. call (nat m) = Raises e
            \<and> outcome (get_completion_loop call m retries slept) = Inl (exhausted_message e))"
proof (induction call m retries slept rule: get_completion_loop.induct)
  case (1 call max_retries retries slept)
  from "1.prems"(1) obtain e where e: "call retries = Raises e" by blast
  have le0: "int retries \<le> max_retries" using "1.prems"(2) .
  show ?case
  proof (cases "int (retries + 1) > max_retries")
    case True
    with le0 have eq: "nat max_retries = retries" by linarith
    have unf: "get_completion_loop call max_retries retries slept
        = \<lparr>outcome = Inl (exhausted_message e), attempts = retries + 1, sleeps = slept\<rparr>"
      using le0 e True by (subst get_completion_loop.simps) simp
    show ?thesis unfolding unf using eq e by simp
  next
    case False
    then have le: "int (retries + 1) \<le> max_retries" by simp
    note ih = "1.IH"[OF le0 e False "1.prems"(1) le]
    have up: "[retries + 1 ..< nat max_retries + 1]
        = (retries + 1) # [retries + 1 + 1 ..< nat max_retries + 1]"
    proof -
      have "retries + 1 < nat max_retries + 1" using le by linarith
      then show ?thesis by (simp add: upt_conv_Cons)
    qed
    have unf: "get_completion_loop call max_retries retries slept
        = get_completion_loop call max_retries (retries + 1) (slept @ [2 ^ (retries + 1)])"
      using le0 e False by (subst get_completion_loop.simps) simp
    show ?thesis unfolding unf using ih up by simp
  qed
qed

lemma sum_list_powers_of_two:
  "sum_list (map (\<lambda>k. 2 ^ k) [1 ..< n + 1]) = (\<Sum>k = 1..n. (2::nat) ^ k)"
proof -
  have "set [1 ..< n + 1] = {1..n}" by auto
  then show ?thesis by (simp only: interv_sum_list_conv_sum_set_nat)
qed

lemma get_completion_loop_progress:
  "int retries \<le> m \<Longrightarrow>
     retries + 1 \<le> attempts (get_completion_loop call m retries slept)
     \<and> take (length slept) (sleeps (get_completion_loop call m retries slept)) = slept"
proof (induction call m retries slept rule: get_completion_loop.induct)
  case (1 call max_retries retries slept)
  show ?case
  proof (cases "call retries")
    case (Returns t)
    then show ?thesis using "1.prems" by (subst (1 2) get_completion_loop.simps) simp
  next
    case (Raises e)
    show ?thesis
    proof (cases "int (retries + 1) > max_retries")
      case True
      then show ?thesis
        using "1.prems" Raises by (subst (1 2) get_completion_loop.simps) simp
    next
      case False
      then have le: "int (retries + 1) \<le> max_retries" by simp
      note ih = "1.IH"[OF "1.prems" Raises False le]
      let ?next = "get_completion_loop call max_retries (retries + 1)
                     (slept @ [2 ^ (retries + 1)])"
      have unf: "get_completion_loop call max_retries retries slept = ?next"
        using "1.prems" Raises False by (subst get_completion_loop.simps) simp
      have "take (length slept) (sleeps ?next)
         = take (length slept) (take (length (slept @ [2 ^ (retries + 1)])) (sleeps ?next))"
        by (simp add: min_def)
      also have "\<dots> = take (length slept) (slept @ [2 ^ (retries + 1)])"
        using ih by simp
      finally show ?thesis unfolding unf using ih by simp
    qed
  qed
qed

text \<open>
  Claim C6. When every call of the operation raises (whatever the class of the
  exception) and \<open>max_retries \<ge> 0\<close>, \<open>get_completion\<close> makes exactly
  \<open>max_retries + 1\<close> calls and then raises; before the k-th retry it sleeps
  \<open>retry_base_delay * 2 ^ k\<close> seconds, for k from 1 to \<open>max_retries\<close>, so that the
  delays add up to \<open>retry_base_delay * (2 ^ 1 + ... + 2 ^ max_retries)\<close>.
\<close>

theorem get_completion_retry_bound:
  assumes "\<forall>k. \<exists>e. call k = Raises e"
    and "0 \<le> max_retries"
    and "\<not> model_missing model default_model"
  shows "attempts (get_completion call model default_model max_retries) = nat max_retries + 1
    \<and> sleeps (get_completion call model default_model max_retries)
         = map (\<lambda>k. retry_base_delay * 2 ^ k) [1 ..< nat max_retries + 1]
    \<and> sum_list (sleeps (get_completion call model default_model max_retries))
         = retry_base_delay * (\<Sum>k = 1..nat max_retries. 2 ^ k)
    \<and> (\<exists>msg. outcome (get_completion call model default_model max_retries) = Inl msg)"
proof -
  have le: "int 0 \<le> max_retries" using assms(2) by simp
  note loop = get_completion_loop_always_failing[OF assms(1) le, of "[]"]
  have gc: "get_completion call model default_model max_retries
      = get_completion_loop call max_retries 0 []"
    using assms(3) by (simp add: get_completion_def)
  have sl: "sleeps (get_completion call model default_model max_retries)
      = map (\<lambda>k. 2 ^ k) [1 ..< nat max_retries + 1]"
    using loop gc by simp
  show ?thesis
    using loop gc sl sum_list_powers_of_two[of "nat max_retries"]
    by (auto simp: retry_base_delay_def)
qed

theorem get_completion_retry_bound_witness:
  "attempts (get_completion (\<lambda>k. Raises TimeoutError) (Some ''gpt'') None 3) = 4
   \<and> sleeps (get_completion (\<lambda>k. Raises TimeoutError) (Some ''gpt'') None 3) = [2, 4, 8]
   \<and> sum_list (sleeps (get_completion (\<lambda>k. Raises TimeoutError) (Some ''gpt'') None 3)) = 14"
proof -
  have a: "\<forall>k. \<exists>e. (\<lambda>k. Raises TimeoutError) k = Raises e" by simp
  have b: "(0::int) \<le> 3" by simp
  have c: "\<not> model_missing (Some ''gpt'') None" by (simp add: model_missing_def)
  have u: "[1 ..< nat 3 + 1] = [1, 2, 3]" by (simp add: upt_rec)
  show ?thesis
    using get_completion_retry_bound[OF a b c] u by (simp add: retry_base_delay_def)
qed

text \<open>
  Claim C7, as the code has it. An exception of any class, also one outside the
  retryable classes, is retried like the others: when the first call raises and
  \<open>max_retries \<ge> 1\<close>, \<open>get_completion\<close> sleeps 2 seconds and calls again. The error
  is raised after the first call, with no delay, only when \<open>max_retries = 0\<close>.
\<close>

theorem get_completion_retries_every_exception:
  assumes "call 0 = Raises e"
    and "\<not> model_missing model default_model"
  shows "(1 \<le> max_retries \<longrightarrow>
            2 \<le> attempts (get_completion call model default_model max_retries)
            \<and> take 1 (sleeps (get_completion call model default_model max_retries)) = [2])
    \<and> (max_retries = 0 \<longrightarrow>
            get_completion call model default_model max_retries
              = \<lparr>outcome = Inl (exhausted_message e), attempts = 1, sleeps = []\<rparr>)"
proof -
  have gc: "get_completion call model default_model max_retries
      = get_completion_loop call max_retries 0 []"
    using assms(2) by (simp add: get_completion_def)
  have zero: "max_retries = 0 \<Longrightarrow> get_completion_loop call max_retries 0 []
      = \<lparr>outcome = Inl (exhausted_message e), attempts = 1, sleeps = []\<rparr>"
    using assms(1) by (subst get_completion_loop.simps) simp
  have more: "1 \<le> max_retries \<Longrightarrow>
      2 \<le> attempts (get_completion_loop call max_retries 0 [])
      \<and> take 1 (sleeps (get_completion_loop call max_retries 0 [])) = [2]"
  proof -
    assume m: "1 \<le> max_retries"
    have step: "get_completion_loop call max_retries 0 []
        = get_completion_loop call max_retries 1 [2]"
      using assms(1) m by (subst get_completion_loop.simps) simp
    have le: "int 1 \<le> max_retries" using m by simp
    show ?thesis
      unfolding step using get_completion_loop_progress[OF le, of call "[2]"] by simp
  qed
  show ?thesis unfolding gc using zero more by blast
qed

theorem get_completion_retries_every_exception_witness:
  "2 \<le> attempts (get_completion (\<lambda>k. Raises (OtherException ''no such file''))
            (Some ''gpt'') None 5)
   \<and> take 1 (sleeps (get_completion (\<lambda>k. Raises (OtherException ''no such file''))
            (Some ''gpt'') None 5)) = [2]
   \<and> attempts (get_completion (\<lambda>k. Raises (OtherException ''no such file''))
            (Some ''gpt'') None 0) = 1"
proof -
  have a: "(\<lambda>k. Raises (OtherException ''no such file'')) 0
      = Raises (OtherException ''no such file'')" by simp
  have c: "\<not> model_missing (Some ''gpt'') None" by (simp add: model_missing_def)
  show ?thesis
    using get_completion_retries_every_exception[OF a c, of 5]
      get_completion_retries_every_exception[OF a c, of 0]
    by simp
qed

theorem get_completion_fatal_error_counterexample:
  "attempts (get_completion (\<lambda>k. Raises (OtherException ''missing input file''))
      (Some ''gpt'') None 2) = 3
   \<and> sleeps (get_completion (\<lambda>k. Raises (OtherException ''missing input file''))
      (Some ''gpt'') None 2) = [2, 4]"
  by (simp add: get_completion_def model_missing_def get_completion_loop.simps)

section \<open>Properties of the checkpoint detector and of the progress aggregator\<close>

text \<open>
  Claim C9. \<open>_check_stage_completed\<close> holds exactly when the files of the stage exist in
  the output directory: the metadata JSON and the first-three-pages text for metadata
  extraction, \<open>complete.md\<close> for the full text, \<open>paper_structure.json\<close> and the
  attribute tree for structure parsing, one of the three report names for report
  generation. Nothing but the existence of these paths is read. The post-processing
  stage has no such file and is never reported complete.
\<close>

theorem check_stage_completed_iff_files_exist:
  "(check_stage_completed METADATA_EXTRACTION d n fs \<longleftrightarrow>
      path_join d (n @ ''_metadata.json'') \<in> fs
      \<and> path_join d (n @ ''_first_three_pages.md'') \<in> fs)
   \<and> (check_stage_completed FULL_OCR d n fs \<longleftrightarrow> path_join d ''complete.md'' \<in> fs)
   \<and> (check_stage_completed STRUCTURE_PARSING d n fs \<longleftrightarrow>
      path_join d ''paper_structure.json'' \<in> fs
      \<and> path_join d (n @ ''_attribute_tree.json'') \<in> fs)
   \<and> (check_stage_completed REPORT_GENERATION d n fs \<longleftrightarrow>
      path_join d ''final_report.md'' \<in> fs
      \<or> path_join d ''report.md'' \<in> fs
      \<or> path_join d (n @ ''_report.md'') \<in> fs)
   \<and> \<not> check_stage_completed POST_PROCESSING d n fs"
  by (simp add: possible_report_files_def)

theorem check_stage_completed_iff_files_exist_witness:
  "check_stage_completed FULL_OCR ''output/paper'' ''paper'' half_done_files
   \<and> check_stage_completed METADATA_EXTRACTION ''output/paper'' ''paper'' half_done_files
   \<and> \<not> check_stage_completed STRUCTURE_PARSING ''output/paper'' ''paper'' half_done_files
   \<and> \<not> check_stage_completed REPORT_GENERATION ''output/paper'' ''paper'' half_done_files
   \<and> check_stage_completed REPORT_GENERATION ''output/paper'' ''paper''
        {''output/paper/paper_report.md''}"
  using check_stage_completed_iff_files_exist[of "''output/paper''" "''paper''" half_done_files]
    check_stage_completed_iff_files_exist[of "''output/paper''" "''paper''"
      "{''output/paper/paper_report.md''}"]
  by (simp add: path_join_def half_done_files_def)

text \<open>
  Claim C3. At the start of the first stage (\<open>METADATA_EXTRACTION\<close>, local progress 0)
  no stage lies before the current one, and the specified overall progress is 0. The
  code compares the \<open>value\<close> strings of the stages: \<open>"full_ocr" < "metadata_extraction"\<close>,
  so the weight 0.30 of the second stage is counted and the reported progress is 0.30.
\<close>

theorem overall_progress_first_stage_start:
  "compute_overall_progress METADATA_EXTRACTION 0 = 3 / 10
   \<and> spec_overall_progress METADATA_EXTRACTION 0 = 0
   \<and> str_lt (stage_value FULL_OCR) (stage_value METADATA_EXTRACTION)"
  by (simp add: compute_overall_progress_def spec_overall_progress_def stage_weights_def)

section \<open>Runs of the orchestrator on concrete inputs\<close>

lemmas orchestrator_defs =
  process_paper_def try_body_def body_stage2_def body_stage3_def body_stage4_def body_stage5_def
  resolve_stage1_def resolve_stage2_def resolve_stage3_def resolve_stage4_def
  run_stage1_def run_stage2_def run_stage3_def run_stage4_def run_stage5_def
  stage1_try_def stage2_try_def stage3_try_def stage4_try_def stage5_try_def
  stage_outcome_def after_handler_def
  fail_stage_def finish_stage_def stage_start_def fail_pipeline_def handle_exception_def
  save_to_file_def checkpoint_result_def first_existing_report_def possible_report_files_def
  notify_progress_def notify_error_def add_stage_result_def new_StageResult_def success_def
  compute_overall_progress_def stage_weights_def path_join_def path_stem_def path_name_def
  py_str_opt_def get_failed_stages_def get_stage_result_def initial_result_def Let_def

lemmas concrete_defs =
  quiet_env_def failing_post_env_def faulty_env_def no_mkdir_env_def failing_stage1_env_def
  timeout_env_def exiting_import_env_def
  observed_service_def default_config_def initial_state_def checkpointed_files_def
  half_done_files_def

text \<open>
  Claim C2. A successful run over an output directory that holds the artifacts of the
  four content stages: every content stage is taken from its checkpoint, the
  post-processing succeeds and the run is \<open>COMPLETED\<close>. The overall progress passed to
  the progress callback goes 0.45, 0.30, 1.0, 0.75, 0.45, 0.465, 0.5: it decreases
  three times and ends at 0.5, not at 1.0.
\<close>

theorem progress_of_checkpointed_run:
  "map overall_progress
     (progress_log (snd (process_paper quiet_env observed_service ''papers/paper.pdf''
        (initial_state checkpointed_files))))
     = [9 / 20, 3 / 10, 1, 3 / 4, 9 / 20, 93 / 200, 1 / 2]
   \<and> map_sum id overall_status
       (fst (process_paper quiet_env observed_service ''papers/paper.pdf''
          (initial_state checkpointed_files)))
     = Inr COMPLETED"
  by (simp add: orchestrator_defs concrete_defs)

section \<open>The stage of a stage result\<close>

lemma stage_finish_stage [simp]: "stage (finish_stage t st r) = stage r"
  by (simp add: finish_stage_def)

lemma stage_fail_stage [simp]: "stage (fst (fail_stage env svc r e st)) = stage r"
  by (simp add: fail_stage_def)

lemma stage_stage_start [simp]: "stage (stage_start s st) = s"
  by (simp add: stage_start_def new_StageResult_def)

lemma stage_checkpoint_result [simp]: "stage (checkpoint_result s t p) = s"
  by (simp add: checkpoint_result_def new_StageResult_def)

lemma stage_outcome_stage:
  assumes "\<And>r' st'. x = (Inr r', st') \<Longrightarrow> stage r' = stage r"
    and "stage_outcome env svc r t0 x = (Inr r2, st2)"
  shows "stage r2 = stage r"
proof (cases x)
  case (Pair y st)
  show ?thesis
  proof (cases y)
    case (Inr r')
    then show ?thesis using assms Pair by (auto simp: stage_outcome_def)
  next
    case (Inl z)
    then show ?thesis
      using assms(2) Pair
      by (cases z) (auto simp: stage_outcome_def fail_stage_def split: prod.splits)
  qed
qed

lemma stage_stage1_try:
  "stage1_try env svc pdf_path out r st = (Inr r', st') \<Longrightarrow> stage r' = stage r"
  by (auto simp: stage1_try_def split: option.splits sum.splits prod.splits)

lemma stage_stage2_try:
  "stage2_try env svc pdf_path out r st = (Inr r', st') \<Longrightarrow> stage r' = stage r"
  by (auto simp: stage2_try_def Let_def split: option.splits sum.splits prod.splits if_splits)

lemma stage_stage3_try:
  "stage3_try env svc md out r st = (Inr r', st') \<Longrightarrow> stage r' = stage r"
  by (auto simp: stage3_try_def Let_def split: option.splits sum.splits prod.splits if_splits)

lemma stage_stage4_try:
  "stage4_try env svc j out r st = (Inr r', st') \<Longrightarrow> stage r' = stage r"
  by (auto simp: stage4_try_def Let_def
        split: option.splits sum.splits prod.splits if_splits list.splits)

lemma stage_stage5_try:
  "stage5_try env svc out r st = (Inr r', st') \<Longrightarrow> stage r' = stage r"
  by (auto simp: stage5_try_def Let_def split: option.splits sum.splits prod.splits if_splits)

lemma stage_run_stage1:
  "run_stage1 env svc pdf_path out st = (Inr r, st') \<Longrightarrow> stage r = METADATA_EXTRACTION"
  unfolding run_stage1_def Let_def
  by (drule stage_outcome_stage[rotated]) (auto dest: stage_stage1_try)

lemma stage_run_stage2:
  "run_stage2 env svc pdf_path out st = (Inr r, st') \<Longrightarrow> stage r = FULL_OCR"
  unfolding run_stage2_def Let_def
  by (drule stage_outcome_stage[rotated]) (auto dest: stage_stage2_try)

lemma stage_run_stage3:
  "run_stage3 env svc md out st = (Inr r, st') \<Longrightarrow> stage r = STRUCTURE_PARSING"
  unfolding run_stage3_def Let_def
  by (drule stage_outcome_stage[rotated]) (auto dest: stage_stage3_try)

lemma stage_run_stage4:
  "run_stage4 env svc j out st = (Inr r, st') \<Longrightarrow> stage r = REPORT_GENERATION"
  unfolding run_stage4_def Let_def
  by (drule stage_outcome_stage[rotated]) (auto dest: stage_stage4_try)

lemma stage_run_stage5:
  "run_stage5 env svc out st = (Inr r, st') \<Longrightarrow> stage r = POST_PROCESSING"
  unfolding run_stage5_def Let_def
  by (drule stage_outcome_stage[rotated]) (auto dest: stage_stage5_try)

lemma stage_resolve_stage1:
  "resolve_stage1 env svc pdf_path out doc st = (Inr r, st') \<Longrightarrow> stage r = METADATA_EXTRACTION"
  by (auto simp: resolve_stage1_def dest: stage_run_stage1 split: if_splits)

lemma stage_resolve_stage2:
  "resolve_stage2 env svc pdf_path out doc st = (Inr r, st') \<Longrightarrow> stage r = FULL_OCR"
  by (auto simp: resolve_stage2_def dest: stage_run_stage2 split: if_splits)

lemma stage_resolve_stage3:
  "resolve_stage3 env svc r2 out doc st = (Inr r, st') \<Longrightarrow> stage r = STRUCTURE_PARSING"
  by (auto simp: resolve_stage3_def dest: stage_run_stage3 split: if_splits)

lemma stage_resolve_stage4:
  "resolve_stage4 env svc r3 out doc st = (Inr r, st') \<Longrightarrow> stage r = REPORT_GENERATION"
  by (auto simp: resolve_stage4_def dest: stage_run_stage4 split: if_splits)

section \<open>The calls of the progress callback\<close>

lemma world_notify_progress [simp]: "world (notify_progress svc s p st) = world st"
  by (simp add: notify_progress_def)

lemma emits_only_refl [simp]: "emits_only P st st"
  by (simp add: emits_only_def)

lemma emits_only_trans: "emits_only P a b \<Longrightarrow> emits_only P b c \<Longrightarrow> emits_only P a c"
  by (fastforce simp: emits_only_def)

lemma emits_only_world [simp]: "emits_only P st (st'\<lparr>world := w\<rparr>) = emits_only P st st'"
  by (simp add: emits_only_def)

lemma emits_only_world_left [simp]: "emits_only P (st\<lparr>world := w\<rparr>) st' = emits_only P st st'"
  by (simp add: emits_only_def)

lemma emits_only_notify_error [simp]:
  "emits_only P st (notify_error svc s e st') = emits_only P st st'"
  by (simp add: emits_only_def notify_error_def)

lemma emits_only_notify_progress:
  "P s \<Longrightarrow> emits_only P st st' \<Longrightarrow> emits_only P st (notify_progress svc s p st')"
  by (auto simp: emits_only_def notify_progress_def)

lemma emits_only_fail_stage [simp]:
  "emits_only P st (snd (fail_stage env svc r e st')) = emits_only P st st'"
  by (simp add: fail_stage_def)

lemma emits_only_stage_outcome:
  "emits_only P st (snd x) \<Longrightarrow> emits_only P st (snd (stage_outcome env svc r t0 x))"
proof (cases x)
  case (Pair y st1)
  assume e: "emits_only P st (snd x)"
  show ?thesis
  proof (cases y)
    case (Inr r')
    then show ?thesis using e Pair by (simp add: stage_outcome_def)
  next
    case (Inl z)
    then show ?thesis
      using e Pair by (cases z) (simp_all add: stage_outcome_def fail_stage_def)
  qed
qed

lemma emits_only_stage1_retry:
  "P METADATA_EXTRACTION \<Longrightarrow> emits_only P st0 st \<Longrightarrow>
   emits_only P st0 (snd (stage1_retry env svc pdf_path out rc calls st))"
proof (induction env svc pdf_path out rc calls st rule: stage1_retry.induct)
  case (1 env svc pdf_path out_dir retry_count calls st)
  show ?case
  proof (cases "retry_count < stage1_max_retries")
    case False
    then show ?thesis using "1.prems" by (subst stage1_retry.simps) simp
  next
    case True
    show ?thesis
    proof (cases "stage1_call env svc pdf_path out_dir (world st)")
      case (Pair x w)
      show ?thesis
      proof (cases x)
        case (Inr md)
        with Pair True "1.prems" show ?thesis by (subst stage1_retry.simps) simp
      next
        case (Inl z)
        show ?thesis
        proof (cases z)
          case (Exit c)
          with Inl Pair True "1.prems" show ?thesis by (subst stage1_retry.simps) simp
        next
          case (Error e)
          show ?thesis
          proof (cases "is_timeout_message e \<and> retry_count + 1 < stage1_max_retries")
            case False
            with Error Inl Pair True "1.prems" show ?thesis
              by (subst stage1_retry.simps) auto
          next
            case t: True
            have "emits_only P st0
                (notify_progress svc METADATA_EXTRACTION (3 / 10) (st\<lparr>world := w\<rparr>))"
              using "1.prems" by (simp add: emits_only_notify_progress)
            note ih = "1.IH"[OF True Pair[symmetric] Inl Error t "1.prems"(1) this]
            have l: "stage1_retry env svc pdf_path out_dir retry_count calls st
                = stage1_retry env svc pdf_path out_dir (retry_count + 1) (calls + 1)
                  (notify_progress svc METADATA_EXTRACTION (3 / 10) (st\<lparr>world := w\<rparr>))"
              using Error Inl Pair True t by (subst stage1_retry.simps) simp
            show ?thesis unfolding l using ih .
          qed
        qed
      qed
    qed
  qed
qed

lemma emits_only_stage1_try:
  assumes "P METADATA_EXTRACTION" "emits_only P st0 st"
  shows "emits_only P st0 (snd (stage1_try env svc pdf_path out r st))"
proof -
  have e2: "emits_only P st0 (notify_progress svc METADATA_EXTRACTION (3 / 10) st)"
    using assms by (simp add: emits_only_notify_progress)
  note er = emits_only_stage1_retry[OF assms(1) e2, of env svc pdf_path out 0 0]
  show ?thesis
    using er assms
    by (auto simp: stage1_try_def emits_only_notify_progress
          split: option.splits sum.splits prod.splits)
qed

lemma emits_only_stage2_try:
  assumes "P FULL_OCR" "emits_only P st0 st"
  shows "emits_only P st0 (snd (stage2_try env svc pdf_path out r st))"
  using assms
  by (auto simp: stage2_try_def Let_def emits_only_notify_progress
        split: option.splits sum.splits prod.splits)

lemma emits_only_stage3_try:
  assumes "P STRUCTURE_PARSING" "emits_only P st0 st"
  shows "emits_only P st0 (snd (stage3_try env svc md out r st))"
  using assms
  by (auto simp: stage3_try_def Let_def emits_only_notify_progress
        split: option.splits sum.splits prod.splits)

lemma emits_only_stage4_try:
  assumes "P REPORT_GENERATION" "emits_only P st0 st"
  shows "emits_only P st0 (snd (stage4_try env svc j out r st))"
  using assms
  by (auto simp: stage4_try_def Let_def emits_only_notify_progress
        split: option.splits sum.splits prod.splits list.splits)

lemma emits_only_run_stage1:
  "P METADATA_EXTRACTION \<Longrightarrow> emits_only P st (snd (run_stage1 env svc pdf_path out st))"
  by (simp add: run_stage1_def Let_def emits_only_stage_outcome emits_only_stage1_try
        emits_only_notify_progress)

lemma emits_only_run_stage2:
  "P FULL_OCR \<Longrightarrow> emits_only P st (snd (run_stage2 env svc pdf_path out st))"
  by (simp add: run_stage2_def Let_def emits_only_stage_outcome emits_only_stage2_try
        emits_only_notify_progress)

lemma emits_only_run_stage3:
  "P STRUCTURE_PARSING \<Longrightarrow> emits_only P st (snd (run_stage3 env svc md out st))"
  by (simp add: run_stage3_def Let_def emits_only_stage_outcome emits_only_stage3_try
        emits_only_notify_progress)

lemma emits_only_run_stage4:
  "P REPORT_GENERATION \<Longrightarrow> emits_only P st (snd (run_stage4 env svc j out st))"
  by (simp add: run_stage4_def Let_def emits_only_stage_outcome emits_only_stage4_try
        emits_only_notify_progress)

lemma emits_only_resolve_stage1:
  "P METADATA_EXTRACTION \<Longrightarrow> emits_only P st (snd (resolve_stage1 env svc pdf_path out doc st))"
  by (simp add: resolve_stage1_def emits_only_run_stage1 emits_only_notify_progress)

lemma emits_only_resolve_stage2:
  "P FULL_OCR \<Longrightarrow> emits_only P st (snd (resolve_stage2 env svc pdf_path out doc st))"
  by (simp add: resolve_stage2_def emits_only_run_stage2 emits_only_notify_progress)

lemma emits_only_resolve_stage3:
  "P STRUCTURE_PARSING \<Longrightarrow> emits_only P st (snd (resolve_stage3 env svc r2 out doc st))"
  by (simp add: resolve_stage3_def emits_only_run_stage3 emits_only_notify_progress)

lemma emits_only_resolve_stage4:
  "P REPORT_GENERATION \<Longrightarrow> emits_only P st (snd (resolve_stage4 env svc r3 out doc st))"
  by (simp add: resolve_stage4_def emits_only_run_stage4 emits_only_notify_progress)

section \<open>The result object through the \<open>try\<close> block\<close>

lemma map_of_add_stage_result [simp]:
  "map_of (stages (add_stage_result r res)) = (map_of (stages res))(stage r \<mapsto> r)"
  by (simp add: add_stage_result_def update_conv')

lemma add_stage_result_fields [simp]:
  "overall_status (add_stage_result r res) = overall_status res"
  "pipeline_error (add_stage_result r res) = pipeline_error res"
  by (simp_all add: add_stage_result_def)

lemma fail_pipeline_fields [simp]:
  "stages (fail_pipeline r res) = stages res"
  "overall_status (fail_pipeline r res) = FAILED"
  "pipeline_error (fail_pipeline r res) = Some (msg_stage_failed (stage r) @ py_str_opt (error_message r))"
  by (simp_all add: fail_pipeline_def)

lemma stage_index_inj: "stage_index s = stage_index s' \<longleftrightarrow> s = s'"
  by (cases s; cases s') simp_all

lemma stage_index_lt5: "stage_index s < 5"
  by (cases s) simp_all

lemma content_done_add:
  assumes "content_done k res" "stage_index (stage r) = k" "status r = COMPLETED"
  shows "content_done (Suc k) (add_stage_result r res)"
  unfolding content_done_def
proof (intro allI conjI impI)
  fix s assume "stage_index s < Suc k"
  then consider "stage_index s < k" | "stage_index s = k" by linarith
  then show "\<exists>ra. map_of (stages (add_stage_result r res)) s = Some ra \<and> status ra = COMPLETED"
  proof cases
    case 1
    then have "s \<noteq> stage r" using assms(2) by auto
    then show ?thesis using assms(1) 1 by (simp add: content_done_def)
  next
    case 2
    then have "s = stage r" using assms(2) stage_index_inj by metis
    then show ?thesis using assms(3) by simp
  qed
next
  fix s assume "Suc k \<le> stage_index s"
  then have "s \<noteq> stage r" "k \<le> stage_index s" using assms(2) by auto
  then show "map_of (stages (add_stage_result r res)) s = None"
    using assms(1) by (simp add: content_done_def)
qed

lemma content_done_fail_orderly:
  assumes "content_done k res" "stage_index (stage r) = k" "status r \<noteq> COMPLETED" "k < 4"
  shows "orderly (fail_pipeline r (add_stage_result r res))"
proof -
  let ?res = "fail_pipeline r (add_stage_result r res)"
  have m: "map_of (stages ?res) = (map_of (stages res))(stage r \<mapsto> r)" by simp
  have h: "halted_at_failure ?res"
    unfolding halted_at_failure_def
  proof (intro allI impI)
    fix s ra
    assume a: "s \<noteq> POST_PROCESSING \<and> map_of (stages ?res) s = Some ra \<and> status ra \<noteq> COMPLETED"
    have "s = stage r"
    proof (rule ccontr)
      assume n: "s \<noteq> stage r"
      then have ms: "map_of (stages res) s = Some ra" using a m by simp
      then have "stage_index s < k" using assms(1) by (auto simp: content_done_def not_le[symmetric])
      then show False using assms(1) ms a by (auto simp: content_done_def)
    qed
    then have ra: "ra = r" using a m by simp
    have later: "\<forall>s'. stage_index s < stage_index s' \<longrightarrow> map_of (stages ?res) s' = None"
    proof (intro allI impI)
      fix s' assume "stage_index s < stage_index s'"
      then have "s' \<noteq> stage r" "k \<le> stage_index s'" using \<open>s = stage r\<close> assms(2) by auto
      then show "map_of (stages ?res) s' = None" using assms(1) m by (simp add: content_done_def)
    qed
    show "(\<forall>s'. stage_index s < stage_index s' \<longrightarrow> map_of (stages ?res) s' = None)
        \<and> overall_status ?res = FAILED
        \<and> pipeline_error ?res = Some (msg_stage_failed s @ py_str_opt (error_message ra))"
      using later ra \<open>s = stage r\<close> by simp
  qed
  have "stage r \<noteq> POST_PROCESSING" using assms(2,4) by auto
  then have p: "post_processing_decides ?res"
    unfolding post_processing_decides_def using assms(3) m by auto
  show ?thesis using h p by (simp add: orderly_def)
qed


lemma try_block_inv_fail:
  assumes "content_done k res" "stage_index (stage r) = k" "status r \<noteq> COMPLETED" "k < 4"
    and "emits_only (\<lambda>s. s \<noteq> POST_PROCESSING) st st'"
  shows "try_block_inv None (fail_pipeline r (add_stage_result r res)) st st'"
  using content_done_fail_orderly[OF assms(1-4)] assms(5) by (simp add: try_block_inv_def)

lemma try_block_inv_raised:
  "content_done k res \<Longrightarrow> try_block_inv (Some x) res st st'"
  by (auto simp: try_block_inv_def)

lemma try_block_inv_step:
  assumes "try_block_inv exc res st1 st'" "emits_only (\<lambda>s. s \<noteq> POST_PROCESSING) st st1"
  shows "try_block_inv exc res st st'"
  using assms unfolding try_block_inv_def by (blast intro: emits_only_trans)

lemma body_stage5_inv:
  assumes "content_done 4 res" "body_stage5 env svc out r1 r3 r4 res st = ((exc, res'), st')"
  shows "try_block_inv exc res' st st'"
proof (cases "unexpected_error env POST_PROCESSING (world st)")
  case (Some x)
  then have "exc = Some x" "res' = res" using assms(2) by (simp_all add: body_stage5_def)
  then show ?thesis using try_block_inv_raised[OF assms(1)] by simp
next
  case None
  obtain y st5 where run: "run_stage5 env svc out st = (y, st5)"
    by (cases "run_stage5 env svc out st")
  show ?thesis
  proof (cases y)
    case (Inl c)
    then show ?thesis
      using assms None run by (auto simp: body_stage5_def intro: try_block_inv_raised)
  next
    case (Inr r5)
    have sr: "stage r5 = POST_PROCESSING" using stage_run_stage5 run Inr by blast
    have exc: "exc = None"
      using assms(2) None run Inr by (auto simp: body_stage5_def split: if_splits)
    have m: "map_of (stages res') = (map_of (stages res))(POST_PROCESSING \<mapsto> r5)"
      using assms(2) None run Inr sr by (auto simp: body_stage5_def split: if_splits)
    have st: "overall_status res' = (if success r5 then COMPLETED else FAILED)"
      using assms(2) None run Inr sr by (auto simp: body_stage5_def split: if_splits)
    have pe: "\<not> success r5 \<Longrightarrow> pipeline_error res'
        = Some (msg_stage_failed POST_PROCESSING @ py_str_opt (error_message r5))"
      using assms(2) None run Inr sr by (auto simp: body_stage5_def split: if_splits)
    have content: "\<And>s. s \<noteq> POST_PROCESSING \<Longrightarrow>
        \<exists>r. map_of (stages res) s = Some r \<and> status r = COMPLETED"
    proof -
      fix s assume "s \<noteq> POST_PROCESSING"
      then have "stage_index s < 4" by (cases s) simp_all
      then show "\<exists>r. map_of (stages res) s = Some r \<and> status r = COMPLETED"
        using assms(1) by (simp add: content_done_def)
    qed
    have h: "halted_at_failure res'"
      unfolding halted_at_failure_def using m content by fastforce
    have p: "post_processing_decides res'"
      unfolding post_processing_decides_def using m st pe by (auto simp: success_def)
    have q: "\<forall>s r. s \<noteq> POST_PROCESSING \<and> map_of (stages res') s = Some r
                \<and> status r \<noteq> COMPLETED \<longrightarrow>
              emits_only (\<lambda>s. s \<noteq> POST_PROCESSING) st st'"
      using m content by fastforce
    show ?thesis using exc h p q by (simp add: try_block_inv_def orderly_def)
  qed
qed

lemma body_stage4_inv:
  assumes "content_done 3 res" "body_stage4 env svc out doc r1 r3 res st = ((exc, res'), st')"
  shows "try_block_inv exc res' st st'"
proof (cases "unexpected_error env REPORT_GENERATION (world st)")
  case (Some x)
  then have "exc = Some x" "res' = res" using assms(2) by (simp_all add: body_stage4_def)
  then show ?thesis using try_block_inv_raised[OF assms(1)] by simp
next
  case None
  obtain y st4 where run: "resolve_stage4 env svc r3 out doc st = (y, st4)"
    by (cases "resolve_stage4 env svc r3 out doc st")
  have em: "emits_only (\<lambda>s. s \<noteq> POST_PROCESSING) st st4"
    using emits_only_resolve_stage4[of "\<lambda>s. s \<noteq> POST_PROCESSING" st env svc r3 out doc] run
    by simp
  show ?thesis
  proof (cases y)
    case (Inl c)
    then show ?thesis
      using assms None run by (auto simp: body_stage4_def intro: try_block_inv_raised)
  next
    case (Inr r4)
    have sr: "stage_index (stage r4) = 3" using stage_resolve_stage4 run Inr by fastforce
    show ?thesis
    proof (cases "success r4")
      case False
      then have "exc = None" "res' = fail_pipeline r4 (add_stage_result r4 res)" "st' = st4"
        using assms(2) None run Inr by (simp_all add: body_stage4_def)
      then show ?thesis
        using try_block_inv_fail[OF assms(1) sr _ _ em] False by (simp add: success_def)
    next
      case True
      then have b: "body_stage5 env svc out r1 r3 r4 (add_stage_result r4 res) st4
          = ((exc, res'), st')"
        using assms(2) None run Inr by (simp add: body_stage4_def)
      have "content_done (Suc 3) (add_stage_result r4 res)"
        using content_done_add[OF assms(1) sr] True by (simp add: success_def)
      then have "content_done 4 (add_stage_result r4 res)" by (simp add: eval_nat_numeral)
      from try_block_inv_step[OF body_stage5_inv[OF this b] em] show ?thesis .
    qed
  qed
qed

lemma body_stage3_inv:
  assumes "content_done 2 res" "body_stage3 env svc out doc r1 r2 res st = ((exc, res'), st')"
  shows "try_block_inv exc res' st st'"
proof (cases "unexpected_error env STRUCTURE_PARSING (world st)")
  case (Some x)
  then have "exc = Some x" "res' = res" using assms(2) by (simp_all add: body_stage3_def)
  then show ?thesis using try_block_inv_raised[OF assms(1)] by simp
next
  case None
  obtain y st3 where run: "resolve_stage3 env svc r2 out doc st = (y, st3)"
    by (cases "resolve_stage3 env svc r2 out doc st")
  have em: "emits_only (\<lambda>s. s \<noteq> POST_PROCESSING) st st3"
    using emits_only_resolve_stage3[of "\<lambda>s. s \<noteq> POST_PROCESSING" st env svc r2 out doc] run
    by simp
  show ?thesis
  proof (cases y)
    case (Inl c)
    then show ?thesis
      using assms None run by (auto simp: body_stage3_def intro: try_block_inv_raised)
  next
    case (Inr r3)
    have sr: "stage_index (stage r3) = 2" using stage_resolve_stage3 run Inr by fastforce
    show ?thesis
    proof (cases "success r3")
      case False
      then have "exc = None" "res' = fail_pipeline r3 (add_stage_result r3 res)" "st' = st3"
        using assms(2) None run Inr by (simp_all add: body_stage3_def)
      then show ?thesis
        using try_block_inv_fail[OF assms(1) sr _ _ em] False by (simp add: success_def)
    next
      case True
      then have b: "body_stage4 env svc out doc r1 r3 (add_stage_result r3 res) st3
          = ((exc, res'), st')"
        using assms(2) None run Inr by (simp add: body_stage3_def)
      have "content_done (Suc 2) (add_stage_result r3 res)"
        using content_done_add[OF assms(1) sr] True by (simp add: success_def)
      then have "content_done 3 (add_stage_result r3 res)" by (simp add: eval_nat_numeral)
      from try_block_inv_step[OF body_stage4_inv[OF this b] em] show ?thesis .
    qed
  qed
qed

lemma body_stage2_inv:
  assumes "content_done 1 res"
    "body_stage2 env svc pdf_path out doc r1 res st = ((exc, res'), st')"
  shows "try_block_inv exc res' st st'"
proof (cases "unexpected_error env FULL_OCR (world st)")
  case (Some x)
  then have "exc = Some x" "res' = res" using assms(2) by (simp_all add: body_stage2_def)
  then show ?thesis using try_block_inv_raised[OF assms(1)] by simp
next
  case None
  obtain y st2 where run: "resolve_stage2 env svc pdf_path out doc st = (y, st2)"
    by (cases "resolve_stage2 env svc pdf_path out doc st")
  have em: "emits_only (\<lambda>s. s \<noteq> POST_PROCESSING) st st2"
    using emits_only_resolve_stage2[of "\<lambda>s. s \<noteq> POST_PROCESSING" st env svc pdf_path out doc]
      run by simp
  show ?thesis
  proof (cases y)
    case (Inl c)
    then show ?thesis
      using assms None run by (auto simp: body_stage2_def intro: try_block_inv_raised)
  next
    case (Inr r2)
    have sr: "stage_index (stage r2) = 1" using stage_resolve_stage2 run Inr by fastforce
    show ?thesis
    proof (cases "success r2")
      case False
      then have "exc = None" "res' = fail_pipeline r2 (add_stage_result r2 res)" "st' = st2"
        using assms(2) None run Inr by (simp_all add: body_stage2_def)
      then show ?thesis
        using try_block_inv_fail[OF assms(1) sr _ _ em] False by (simp add: success_def)
    next
      case True
      then have b: "body_stage3 env svc out doc r1 r2 (add_stage_result r2 res) st2
          = ((exc, res'), st')"
        using assms(2) None run Inr by (simp add: body_stage2_def)
      have "content_done (Suc 1) (add_stage_result r2 res)"
        using content_done_add[OF assms(1) sr] True by (simp add: success_def)
      then have "content_done 2 (add_stage_result r2 res)" by (simp add: eval_nat_numeral)
      from try_block_inv_step[OF body_stage3_inv[OF this b] em] show ?thesis .
    qed
  qed
qed

lemma try_body_inv:
  assumes "stages res = []" "try_body env svc pdf_path out doc res st = ((exc, res'), st')"
  shows "try_block_inv exc res' st st'"
proof (cases "unexpected_error env METADATA_EXTRACTION (world st)")
  case (Some x)
  have cd: "content_done 0 res" using assms(1) by (simp add: content_done_def)
  have "exc = Some x" "res' = res" using Some assms(2) by (simp_all add: try_body_def)
  then show ?thesis using try_block_inv_raised[OF cd] by simp
next
  case None
  have cd: "content_done 0 res" using assms(1) by (simp add: content_done_def)
  obtain y st1 where run: "resolve_stage1 env svc pdf_path out doc st = (y, st1)"
    by (cases "resolve_stage1 env svc pdf_path out doc st")
  have em: "emits_only (\<lambda>s. s \<noteq> POST_PROCESSING) st st1"
    using emits_only_resolve_stage1[of "\<lambda>s. s \<noteq> POST_PROCESSING" st env svc pdf_path out doc]
      run by simp
  show ?thesis
  proof (cases y)
    case (Inl c)
    then show ?thesis
      using assms cd None run by (auto simp: try_body_def intro: try_block_inv_raised)
  next
    case (Inr r1)
    have sr: "stage_index (stage r1) = 0" using stage_resolve_stage1 run Inr by fastforce
    show ?thesis
    proof (cases "success r1")
      case False
      then have "exc = None" "res' = fail_pipeline r1 (add_stage_result r1 res)" "st' = st1"
        using assms(2) None run Inr by (simp_all add: try_body_def)
      then show ?thesis
        using try_block_inv_fail[OF cd sr _ _ em] False by (simp add: success_def)
    next
      case True
      then have b: "body_stage2 env svc pdf_path out doc r1 (add_stage_result r1 res) st1
          = ((exc, res'), st')"
        using assms(2) None run Inr by (simp add: try_body_def)
      have "content_done (Suc 0) (add_stage_result r1 res)"
        using content_done_add[OF cd sr] True by (simp add: success_def)
      then have "content_done 1 (add_stage_result r1 res)" by simp
      from try_block_inv_step[OF body_stage2_inv[OF this b] em] show ?thesis .
    qed
  qed
qed

lemma try_body_orderly:
  assumes "stages res = []" "try_body env svc pdf_path out doc res st = ((None, res'), st')"
  shows "orderly res'"
  using try_body_inv[OF assms] by (simp add: try_block_inv_def)



section \<open>The fields of the configuration that a run reads\<close>

lemma notify_progress_cong: "same_reads a b \<Longrightarrow> notify_progress a = notify_progress b"
  by (simp add: same_reads_def notify_progress_def fun_eq_iff)

lemma notify_error_cong: "same_reads a b \<Longrightarrow> notify_error a = notify_error b"
  by (simp add: same_reads_def notify_error_def fun_eq_iff)

lemma fail_stage_cong: "same_reads a b \<Longrightarrow> fail_stage env a = fail_stage env b"
  by (simp add: fail_stage_def fun_eq_iff notify_error_cong)

lemma stage1_call_cong:
  assumes "same_reads a b"
  shows "stage1_call env a = stage1_call env b"
proof -
  have eqs: "template_paths (config a) = template_paths (config b)"
    "api_name (config a) = api_name (config b)" "crop_params (config a) = crop_params (config b)"
    using assms by (simp_all add: same_reads_def)
  show ?thesis unfolding stage1_call_def fun_eq_iff eqs by simp
qed

lemma stage1_retry_cong:
  "same_reads a b \<Longrightarrow>
   stage1_retry env a pdf_path out rc calls st = stage1_retry env b pdf_path out rc calls st"
proof (induction env a pdf_path out rc calls st rule: stage1_retry.induct)
  case (1 env svc pdf_path out_dir retry_count calls st)
  note sc = stage1_call_cong[OF "1.prems", of env]
  note np = notify_progress_cong[OF "1.prems"]
  show ?case
  proof (cases "retry_count < stage1_max_retries")
    case False
    then show ?thesis by (subst (1 2) stage1_retry.simps) simp
  next
    case True
    show ?thesis
    proof (cases "stage1_call env svc pdf_path out_dir (world st)")
      case (Pair x w)
      show ?thesis
      proof (cases x)
        case (Inr md)
        with Pair True sc show ?thesis by (subst (1 2) stage1_retry.simps) simp
      next
        case (Inl y)
        show ?thesis
        proof (cases y)
          case (Exit c)
          with Inl Pair True sc show ?thesis by (subst (1 2) stage1_retry.simps) simp
        next
          case (Error e)
          show ?thesis
          proof (cases "is_timeout_message e \<and> retry_count + 1 < stage1_max_retries")
            case False
            with Error Inl Pair True sc show ?thesis by (subst (1 2) stage1_retry.simps) auto
          next
            case t: True
            have ih: "stage1_retry env svc pdf_path out_dir (retry_count + 1) (calls + 1)
                  (notify_progress svc METADATA_EXTRACTION (3 / 10) (st\<lparr>world := w\<rparr>))
                = stage1_retry env b pdf_path out_dir (retry_count + 1) (calls + 1)
                  (notify_progress b METADATA_EXTRACTION (3 / 10) (st\<lparr>world := w\<rparr>))"
              using "1.IH"[OF True Pair[symmetric] Inl Error t "1.prems"] unfolding np .
            have l: "stage1_retry env svc pdf_path out_dir retry_count calls st
                = stage1_retry env svc pdf_path out_dir (retry_count + 1) (calls + 1)
                  (notify_progress svc METADATA_EXTRACTION (3 / 10) (st\<lparr>world := w\<rparr>))"
              using Error Inl Pair True t by (subst stage1_retry.simps) simp
            have r: "stage1_retry env b pdf_path out_dir retry_count calls st
                = stage1_retry env b pdf_path out_dir (retry_count + 1) (calls + 1)
                  (notify_progress b METADATA_EXTRACTION (3 / 10) (st\<lparr>world := w\<rparr>))"
              using Error Inl Pair True t sc by (subst stage1_retry.simps) simp
            show ?thesis unfolding l r ih ..
          qed
        qed
      qed
    qed
  qed
qed

lemma run_stage1_cong:
  assumes "same_reads a b"
  shows "run_stage1 env a pdf_path out st = run_stage1 env b pdf_path out st"
  unfolding run_stage1_def stage1_try_def stage_outcome_def notify_progress_cong[OF assms]
    fail_stage_cong[OF assms] stage1_retry_cong[OF assms] ..

lemma run_stage2_cong:
  assumes "same_reads a b"
  shows "run_stage2 env a pdf_path out st = run_stage2 env b pdf_path out st"
  unfolding run_stage2_def stage2_try_def stage_outcome_def notify_progress_cong[OF assms]
    fail_stage_cong[OF assms] ..

lemma run_stage3_cong:
  assumes "same_reads a b"
  shows "run_stage3 env a md out st = run_stage3 env b md out st"
proof -
  have tp: "template_paths (config a) = template_paths (config b)"
    using assms by (simp add: same_reads_def)
  show ?thesis
    unfolding run_stage3_def stage3_try_def stage_outcome_def notify_progress_cong[OF assms]
      fail_stage_cong[OF assms] tp ..
qed

lemma run_stage4_cong:
  assumes "same_reads a b"
  shows "run_stage4 env a j out st = run_stage4 env b j out st"
  unfolding run_stage4_def stage4_try_def stage_outcome_def notify_progress_cong[OF assms]
    fail_stage_cong[OF assms] ..

lemma run_stage5_cong:
  assumes "same_reads a b"
  shows "run_stage5 env a out st = run_stage5 env b out st"
  unfolding run_stage5_def stage5_try_def stage_outcome_def notify_progress_cong[OF assms]
    fail_stage_cong[OF assms] ..

lemma process_paper_cong:
  assumes "same_reads a b"
  shows "process_paper env a pdf_path st = process_paper env b pdf_path st"
proof -
  have od: "config_output_dir (config a) = config_output_dir (config b)"
    using assms by (simp add: same_reads_def)
  show ?thesis
    unfolding process_paper_def try_body_def body_stage2_def body_stage3_def body_stage4_def
      body_stage5_def resolve_stage1_def resolve_stage2_def resolve_stage3_def
      resolve_stage4_def run_stage1_cong[OF assms] run_stage2_cong[OF assms]
      run_stage3_cong[OF assms] run_stage4_cong[OF assms] run_stage5_cong[OF assms]
      notify_progress_cong[OF assms] od ..
qed

text \<open>
  The loop counts its calls, makes at most \<open>stage1_max_retries - retry_count\<close> of them,
  and leaves the world that these calls alone produce.
\<close>

lemma stage1_retry_calls_world:
  "calls \<le> snd (fst (stage1_retry env svc pdf_path out rc calls st))
   \<and> snd (fst (stage1_retry env svc pdf_path out rc calls st))
       \<le> calls + (stage1_max_retries - rc)
   \<and> world (snd (stage1_retry env svc pdf_path out rc calls st))
       = stage1_calls_world env svc pdf_path out
           (snd (fst (stage1_retry env svc pdf_path out rc calls st)) - calls) (world st)"
proof (induction env svc pdf_path out rc calls st rule: stage1_retry.induct)
  case (1 env svc pdf_path out_dir retry_count calls st)
  show ?case
  proof (cases "retry_count < stage1_max_retries")
    case False
    then show ?thesis by (subst (1 2 3 4) stage1_retry.simps) simp
  next
    case True
    show ?thesis
    proof (cases "stage1_call env svc pdf_path out_dir (world st)")
      case (Pair x w)
      have w: "snd (stage1_call env svc pdf_path out_dir (world st)) = w" using Pair by simp
      have one: "stage1_calls_world env svc pdf_path out_dir (Suc 0) (world st) = w"
        using w by simp
      show ?thesis
      proof (cases x)
        case (Inr md)
        then have "stage1_retry env svc pdf_path out_dir retry_count calls st
            = ((Inr md, calls + 1), st\<lparr>world := w\<rparr>)"
          using Pair True by (subst stage1_retry.simps) simp
        then show ?thesis using one True by simp
      next
        case (Inl y)
        show ?thesis
        proof (cases y)
          case (Exit c)
          then have "stage1_retry env svc pdf_path out_dir retry_count calls st
              = ((Inl (Exit c), calls + 1), st\<lparr>world := w\<rparr>)"
            using Inl Pair True by (subst stage1_retry.simps) simp
          then show ?thesis using one True by simp
        next
          case (Error e)
          show ?thesis
          proof (cases "is_timeout_message e \<and> retry_count + 1 < stage1_max_retries")
            case False
            then have "stage1_retry env svc pdf_path out_dir retry_count calls st
                = ((Inl (Error e), calls + 1), st\<lparr>world := w\<rparr>)"
              using Error Inl Pair True by (subst stage1_retry.simps) auto
            then show ?thesis using one True by simp
          next
            case t: True
            let ?next = "stage1_retry env svc pdf_path out_dir (retry_count + 1) (calls + 1)
                  (notify_progress svc METADATA_EXTRACTION (3 / 10) (st\<lparr>world := w\<rparr>))"
            note ih = "1.IH"[OF True Pair[symmetric] Inl Error t]
            have l: "stage1_retry env svc pdf_path out_dir retry_count calls st = ?next"
              using Error Inl Pair True t by (subst stage1_retry.simps) simp
            have le: "calls + 1 \<le> snd (fst ?next)" using ih by (elim conjE)
            have "snd (fst ?next) \<le> (calls + 1) + (stage1_max_retries - (retry_count + 1))"
              using ih by (elim conjE)
            then have ub: "snd (fst ?next) \<le> calls + (stage1_max_retries - retry_count)"
              using True by arith
            have "snd (fst ?next) - calls = Suc (snd (fst ?next) - (calls + 1))"
              using le by simp
            then have "stage1_calls_world env svc pdf_path out_dir (snd (fst ?next) - calls)
                  (world st)
                = stage1_calls_world env svc pdf_path out_dir (snd (fst ?next) - (calls + 1)) w"
              using w by simp
            moreover have "world (snd ?next)
                = stage1_calls_world env svc pdf_path out_dir (snd (fst ?next) - (calls + 1))
                    (world (notify_progress svc METADATA_EXTRACTION (3 / 10)
                       (st\<lparr>world := w\<rparr>)))"
              using ih by (elim conjE)
            then have "world (snd ?next)
                = stage1_calls_world env svc pdf_path out_dir (snd (fst ?next) - (calls + 1)) w"
              by simp
            ultimately show ?thesis unfolding l using le ub by simp
          qed
        qed
      qed
    qed
  qed
qed

section \<open>Properties of a run of the orchestrator\<close>

lemma process_paper_returns:
  assumes "process_paper env svc pdf_path st = (Inr res, st')"
  obtains u w1 exc res1 st1 w' where
    "path_mkdir env (path_join (config_output_dir (config svc)) (path_stem pdf_path)) (world st)
       = (Inr u, w1)"
    "try_body env svc pdf_path (path_join (config_output_dir (config svc)) (path_stem pdf_path))
       (path_stem pdf_path)
       (initial_result pdf_path (path_join (config_output_dir (config svc)) (path_stem pdf_path))
          (path_stem pdf_path) (clock (world st)))
       (st\<lparr>world := w1\<rparr>) = ((exc, res1), st1)"
    "\<forall>c. exc \<noteq> Some (Exit c)"
    "res = (after_handler env exc res1)
             \<lparr>run_end_time := Some (clock (world st1)),
              total_processing_time := clock (world st1) - clock (world st)\<rparr>"
    "st' = st1\<lparr>world := w'\<rparr>"
  using assms
  by (auto simp: process_paper_def Let_def
        split: prod.splits sum.splits option.splits raised.splits)

lemma after_handler_simps [simp]:
  "after_handler env None res = res"
  "after_handler env (Some (Error e)) res = handle_exception env e res"
  "after_handler env (Some (Exit c)) res = res"
  by (simp_all add: after_handler_def)

lemma orderly_times [simp]:
  "orderly (res\<lparr>run_end_time := a, total_processing_time := b\<rparr>) = orderly res"
  by (simp add: orderly_def halted_at_failure_def post_processing_decides_def)

lemma initial_result_stages [simp]: "stages (initial_result p out doc t) = []"
  by (simp add: initial_result_def)

lemma handle_exception_first_stage:
  "\<exists>r. map_of (stages (handle_exception env e res)) METADATA_EXTRACTION = Some r
     \<and> status r = FAILED \<and> error_message r = Some e"
  by (simp add: handle_exception_def new_StageResult_def)

lemma checkpoint_result_fields [simp]:
  "status (checkpoint_result s t p) = COMPLETED"
  "processing_time (checkpoint_result s t p) = 0"
  "output_path (checkpoint_result s t p) = Some p"
  "success (checkpoint_result s t p)"
  by (simp_all add: checkpoint_result_def new_StageResult_def success_def)

lemma first_existing_report_exists:
  "check_stage_completed REPORT_GENERATION out doc fs \<Longrightarrow> first_existing_report out doc fs \<in> fs"
  by (auto simp: first_existing_report_def possible_report_files_def split: list.splits)


lemma try_body_all_checkpointed:
  assumes c1: "check_stage_completed METADATA_EXTRACTION out doc (files (world st))"
    and c2: "check_stage_completed FULL_OCR out doc (files (world st))"
    and c3: "check_stage_completed STRUCTURE_PARSING out doc (files (world st))"
    and c4: "check_stage_completed REPORT_GENERATION out doc (files (world st))"
    and nf: "\<forall>s. unexpected_error env s (world st) = None"
    and tb: "try_body env svc pdf_path out doc res st = ((exc, res'), st')"
    and e: "stages res = []"
  shows "(exc = None \<or> (\<exists>c. exc = Some (Exit c)))
    \<and> (exc = None \<longrightarrow>
      map_of (stages res') METADATA_EXTRACTION
        = Some (checkpoint_result METADATA_EXTRACTION (clock (world st))
                  (path_join out (doc @ ''_metadata.json'')))
    \<and> map_of (stages res') FULL_OCR
        = Some (checkpoint_result FULL_OCR (clock (world st)) (path_join out ''complete.md''))
    \<and> map_of (stages res') STRUCTURE_PARSING
        = Some (checkpoint_result STRUCTURE_PARSING (clock (world st))
                  (path_join out (doc @ ''_attribute_tree.json'')))
    \<and> map_of (stages res') REPORT_GENERATION
        = Some (checkpoint_result REPORT_GENERATION (clock (world st))
                  (first_existing_report out doc (files (world st)))))"
proof -
  let ?st4 = "notify_progress svc REPORT_GENERATION 1
     (notify_progress svc STRUCTURE_PARSING 1
       (notify_progress svc FULL_OCR 1 (notify_progress svc METADATA_EXTRACTION 1 st)))"
  obtain y st5 where run: "run_stage5 env svc out ?st4 = (y, st5)"
    by (cases "run_stage5 env svc out ?st4")
  show ?thesis
  proof (cases y)
    case (Inl c)
    then show ?thesis
      using tb c1 c2 c3 c4 nf run e
      by (auto simp: try_body_def body_stage2_def body_stage3_def body_stage4_def
            body_stage5_def resolve_stage1_def resolve_stage2_def resolve_stage3_def
            resolve_stage4_def simp del: check_stage_completed.simps split: if_splits)
  next
    case (Inr r5)
    have sr: "stage r5 = POST_PROCESSING" using stage_run_stage5 run Inr by blast
    show ?thesis
      using tb c1 c2 c3 c4 nf run sr e Inr
      by (auto simp: try_body_def body_stage2_def body_stage3_def body_stage4_def
            body_stage5_def resolve_stage1_def resolve_stage2_def resolve_stage3_def
            resolve_stage4_def simp del: check_stage_completed.simps split: if_splits)
  qed
qed

text \<open>
  Claim C1, as the code has it. A content stage that the checkpoint detector reports
  complete when it is reached is not run: the orchestrator emits its progress at 1 and
  records a result with status \<open>COMPLETED\<close> (the status \<open>SKIPPED\<close> is never assigned),
  processing time 0 and the existing artifact as output path; for the report stage the
  artifact is the first of the accepted report files that exists. Consequently, in a
  run over an output directory in which the detector reports the four content stages
  complete (and with no unexpected error), the returned result holds these four
  records, the post-processing stage, which has no checkpoint, is run, and
  \<open>overall_status\<close> is \<open>COMPLETED\<close> exactly when the post-processing completes.
\<close>

theorem checkpointed_stages_are_recorded_completed:
  "(check_stage_completed METADATA_EXTRACTION out doc (files (world st)) \<longrightarrow>
      resolve_stage1 env svc pdf_path out doc st
        = (Inr (checkpoint_result METADATA_EXTRACTION (clock (world st))
             (path_join out (doc @ ''_metadata.json''))),
           notify_progress svc METADATA_EXTRACTION 1 st))
   \<and> (check_stage_completed FULL_OCR out doc (files (world st)) \<longrightarrow>
      resolve_stage2 env svc pdf_path out doc st
        = (Inr (checkpoint_result FULL_OCR (clock (world st)) (path_join out ''complete.md'')),
           notify_progress svc FULL_OCR 1 st))
   \<and> (check_stage_completed STRUCTURE_PARSING out doc (files (world st)) \<longrightarrow>
      resolve_stage3 env svc r2 out doc st
        = (Inr (checkpoint_result STRUCTURE_PARSING (clock (world st))
             (path_join out (doc @ ''_attribute_tree.json''))),
           notify_progress svc STRUCTURE_PARSING 1 st))
   \<and> (check_stage_completed REPORT_GENERATION out doc (files (world st)) \<longrightarrow>
      resolve_stage4 env svc r3 out doc st
        = (Inr (checkpoint_result REPORT_GENERATION (clock (world st))
             (first_existing_report out doc (files (world st)))),
           notify_progress svc REPORT_GENERATION 1 st)
      \<and> first_existing_report out doc (files (world st)) \<in> files (world st))
   \<and> status (checkpoint_result s t p) = COMPLETED
   \<and> processing_time (checkpoint_result s t p) = 0
   \<and> output_path (checkpoint_result s t p) = Some p
   \<and> (doc = path_stem pdf_path \<and> out = path_join (config_output_dir (config svc)) doc
       \<and> path_mkdir env out (world st0) = (Inr u, w1)
       \<and> (\<forall>s. s \<noteq> POST_PROCESSING \<longrightarrow> check_stage_completed s out doc (files w1))
       \<and> (\<forall>s. unexpected_error env s w1 = None)
       \<and> process_paper env svc pdf_path st0 = (Inr res, st') \<longrightarrow>
         get_stage_result res METADATA_EXTRACTION
           = Some (checkpoint_result METADATA_EXTRACTION (clock w1)
                     (path_join out (doc @ ''_metadata.json'')))
         \<and> get_stage_result res FULL_OCR
           = Some (checkpoint_result FULL_OCR (clock w1) (path_join out ''complete.md''))
         \<and> get_stage_result res STRUCTURE_PARSING
           = Some (checkpoint_result STRUCTURE_PARSING (clock w1)
                     (path_join out (doc @ ''_attribute_tree.json'')))
         \<and> get_stage_result res REPORT_GENERATION
           = Some (checkpoint_result REPORT_GENERATION (clock w1)
                     (first_existing_report out doc (files w1)))
         \<and> (\<exists>r5. get_stage_result res POST_PROCESSING = Some r5
               \<and> (overall_status res = COMPLETED \<longleftrightarrow> status r5 = COMPLETED)))"
proof -
  have whole: "get_stage_result res METADATA_EXTRACTION
           = Some (checkpoint_result METADATA_EXTRACTION (clock w1)
                     (path_join out (doc @ ''_metadata.json'')))
         \<and> get_stage_result res FULL_OCR
           = Some (checkpoint_result FULL_OCR (clock w1) (path_join out ''complete.md''))
         \<and> get_stage_result res STRUCTURE_PARSING
           = Some (checkpoint_result STRUCTURE_PARSING (clock w1)
                     (path_join out (doc @ ''_attribute_tree.json'')))
         \<and> get_stage_result res REPORT_GENERATION
           = Some (checkpoint_result REPORT_GENERATION (clock w1)
                     (first_existing_report out doc (files w1)))
         \<and> (\<exists>r5. get_stage_result res POST_PROCESSING = Some r5
               \<and> (overall_status res = COMPLETED \<longleftrightarrow> status r5 = COMPLETED))"
    if d: "doc = path_stem pdf_path"
      and o: "out = path_join (config_output_dir (config svc)) doc"
      and mk: "path_mkdir env out (world st0) = (Inr u, w1)"
      and ck: "\<forall>s. s \<noteq> POST_PROCESSING \<longrightarrow> check_stage_completed s out doc (files w1)"
      and nf: "\<forall>s. unexpected_error env s w1 = None"
      and run: "process_paper env svc pdf_path st0 = (Inr res, st')"
  proof -
    from run obtain u' w1' exc res1 st1 w' where
      mk': "path_mkdir env (path_join (config_output_dir (config svc)) (path_stem pdf_path))
         (world st0) = (Inr u', w1')"
      and tb: "try_body env svc pdf_path
         (path_join (config_output_dir (config svc)) (path_stem pdf_path)) (path_stem pdf_path)
         (initial_result pdf_path
            (path_join (config_output_dir (config svc)) (path_stem pdf_path))
            (path_stem pdf_path) (clock (world st0)))
         (st0\<lparr>world := w1'\<rparr>) = ((exc, res1), st1)"
        and nx: "\<forall>c. exc \<noteq> Some (Exit c)"
      and res: "res = (after_handler env exc res1)
             \<lparr>run_end_time := Some (clock (world st1)),
              total_processing_time := clock (world st1) - clock (world st0)\<rparr>"
      by (rule process_paper_returns)
    have w: "w1' = w1" using mk mk' d o by simp
    have tb': "try_body env svc pdf_path out doc
         (initial_result pdf_path out doc (clock (world st0))) (st0\<lparr>world := w1\<rparr>)
         = ((exc, res1), st1)"
      using tb w d o by simp
    have cks: "check_stage_completed METADATA_EXTRACTION out doc (files (world (st0\<lparr>world := w1\<rparr>)))"
      "check_stage_completed FULL_OCR out doc (files (world (st0\<lparr>world := w1\<rparr>)))"
      "check_stage_completed STRUCTURE_PARSING out doc (files (world (st0\<lparr>world := w1\<rparr>)))"
      "check_stage_completed REPORT_GENERATION out doc (files (world (st0\<lparr>world := w1\<rparr>)))"
      using ck by (simp_all del: check_stage_completed.simps)
    have nf': "\<forall>s. unexpected_error env s (world (st0\<lparr>world := w1\<rparr>)) = None" using nf by simp
    note all0 = try_body_all_checkpointed[OF cks nf' tb' initial_result_stages]
    then have exc: "exc = None" using nx by blast
    note all = all0[THEN conjunct2, rule_format, OF exc, simplified]
    have rr: "res = res1\<lparr>run_end_time := Some (clock (world st1)),
              total_processing_time := clock (world st1) - clock (world st0)\<rparr>"
      using res exc by simp
    have "orderly res1" using try_body_orderly[OF initial_result_stages tb'[unfolded exc]] .
    then have ppd: "post_processing_decides res1" by (simp add: orderly_def)
    have content: "\<forall>s. s \<noteq> POST_PROCESSING \<longrightarrow>
        (\<exists>r. map_of (stages res1) s = Some r \<and> status r = COMPLETED)"
    proof (intro allI impI)
      fix s :: ProcessingStage assume "s \<noteq> POST_PROCESSING"
      then show "\<exists>r. map_of (stages res1) s = Some r \<and> status r = COMPLETED"
        using all by (cases s) simp_all
    qed
    from ppd content have "\<exists>r5. map_of (stages res1) POST_PROCESSING = Some r5
           \<and> (overall_status res1 = COMPLETED \<longleftrightarrow> status r5 = COMPLETED)"
      unfolding post_processing_decides_def by blast
    then show ?thesis using all rr by (simp add: get_stage_result_def)
  qed
  have stagewise:
    "(check_stage_completed METADATA_EXTRACTION out doc (files (world st)) \<longrightarrow>
      resolve_stage1 env svc pdf_path out doc st
        = (Inr (checkpoint_result METADATA_EXTRACTION (clock (world st))
             (path_join out (doc @ ''_metadata.json''))),
           notify_progress svc METADATA_EXTRACTION 1 st))
   \<and> (check_stage_completed FULL_OCR out doc (files (world st)) \<longrightarrow>
      resolve_stage2 env svc pdf_path out doc st
        = (Inr (checkpoint_result FULL_OCR (clock (world st)) (path_join out ''complete.md'')),
           notify_progress svc FULL_OCR 1 st))
   \<and> (check_stage_completed STRUCTURE_PARSING out doc (files (world st)) \<longrightarrow>
      resolve_stage3 env svc r2 out doc st
        = (Inr (checkpoint_result STRUCTURE_PARSING (clock (world st))
             (path_join out (doc @ ''_attribute_tree.json''))),
           notify_progress svc STRUCTURE_PARSING 1 st))
   \<and> (check_stage_completed REPORT_GENERATION out doc (files (world st)) \<longrightarrow>
      resolve_stage4 env svc r3 out doc st
        = (Inr (checkpoint_result REPORT_GENERATION (clock (world st))
             (first_existing_report out doc (files (world st)))),
           notify_progress svc REPORT_GENERATION 1 st)
      \<and> first_existing_report out doc (files (world st)) \<in> files (world st))
   \<and> status (checkpoint_result s t p) = COMPLETED
   \<and> processing_time (checkpoint_result s t p) = 0
   \<and> output_path (checkpoint_result s t p) = Some p"
    by (simp add: resolve_stage1_def resolve_stage2_def resolve_stage3_def resolve_stage4_def
          first_existing_report_exists del: check_stage_completed.simps)
  have run_wise:
    "doc = path_stem pdf_path \<and> out = path_join (config_output_dir (config svc)) doc
       \<and> path_mkdir env out (world st0) = (Inr u, w1)
       \<and> (\<forall>s. s \<noteq> POST_PROCESSING \<longrightarrow> check_stage_completed s out doc (files w1))
       \<and> (\<forall>s. unexpected_error env s w1 = None)
       \<and> process_paper env svc pdf_path st0 = (Inr res, st') \<longrightarrow>
         get_stage_result res METADATA_EXTRACTION
           = Some (checkpoint_result METADATA_EXTRACTION (clock w1)
                     (path_join out (doc @ ''_metadata.json'')))
         \<and> get_stage_result res FULL_OCR
           = Some (checkpoint_result FULL_OCR (clock w1) (path_join out ''complete.md''))
         \<and> get_stage_result res STRUCTURE_PARSING
           = Some (checkpoint_result STRUCTURE_PARSING (clock w1)
                     (path_join out (doc @ ''_attribute_tree.json'')))
         \<and> get_stage_result res REPORT_GENERATION
           = Some (checkpoint_result REPORT_GENERATION (clock w1)
                     (first_existing_report out doc (files w1)))
         \<and> (\<exists>r5. get_stage_result res POST_PROCESSING = Some r5
               \<and> (overall_status res = COMPLETED \<longleftrightarrow> status r5 = COMPLETED))"
    using whole by blast
  from stagewise run_wise show ?thesis
    by (elim conjE) (intro conjI; assumption)
qed

theorem checkpointed_stages_are_recorded_completed_witness:
  "\<exists>res st'.
     process_paper quiet_env observed_service ''papers/paper.pdf''
       (initial_state checkpointed_files) = (Inr res, st')
     \<and> get_stage_result res METADATA_EXTRACTION
         = Some (checkpoint_result METADATA_EXTRACTION 0 ''output/paper/paper_metadata.json'')
     \<and> get_stage_result res FULL_OCR
         = Some (checkpoint_result FULL_OCR 0 ''output/paper/complete.md'')
     \<and> get_stage_result res STRUCTURE_PARSING
         = Some (checkpoint_result STRUCTURE_PARSING 0 ''output/paper/paper_attribute_tree.json'')
     \<and> get_stage_result res REPORT_GENERATION
         = Some (checkpoint_result REPORT_GENERATION 0 ''output/paper/final_report.md'')
     \<and> (\<exists>r5. get_stage_result res POST_PROCESSING = Some r5
           \<and> (overall_status res = COMPLETED \<longleftrightarrow> status r5 = COMPLETED))"
proof -
  let ?st0 = "initial_state checkpointed_files"
  have "\<exists>res st'. process_paper quiet_env observed_service ''papers/paper.pdf'' ?st0
      = (Inr res, st')"
    by (simp add: orchestrator_defs concrete_defs)
  then obtain res st' where
    run: "process_paper quiet_env observed_service ''papers/paper.pdf'' ?st0 = (Inr res, st')"
    by (elim exE)
  have d: "''paper'' = path_stem ''papers/paper.pdf''"
    by (simp add: path_stem_def path_name_def)
  have o: "''output/paper'' = path_join (config_output_dir (config observed_service)) ''paper''"
    by (simp add: path_join_def observed_service_def default_config_def)
  have mk: "path_mkdir quiet_env ''output/paper'' (world ?st0) = (Inr (), world ?st0)"
    by (simp add: quiet_env_def)
  have ck: "\<forall>s. s \<noteq> POST_PROCESSING \<longrightarrow>
      check_stage_completed s ''output/paper'' ''paper'' (files (world ?st0))"
  proof (intro allI impI)
    fix s :: ProcessingStage assume "s \<noteq> POST_PROCESSING"
    then show "check_stage_completed s ''output/paper'' ''paper'' (files (world ?st0))"
      by (cases s)
         (simp_all add: initial_state_def checkpointed_files_def path_join_def
            possible_report_files_def)
  qed
  have nf: "\<forall>s. unexpected_error quiet_env s (world ?st0) = None"
    by (simp add: quiet_env_def)
  have fr: "first_existing_report ''output/paper'' ''paper'' (files (world ?st0))
      = ''output/paper/final_report.md''"
    by (simp add: first_existing_report_def possible_report_files_def path_join_def
          initial_state_def checkpointed_files_def)
  have pj: "path_join ''output/paper'' (''paper'' @ ''_metadata.json'')
        = ''output/paper/paper_metadata.json''"
      "path_join ''output/paper'' ''complete.md'' = ''output/paper/complete.md''"
      "path_join ''output/paper'' (''paper'' @ ''_attribute_tree.json'')
        = ''output/paper/paper_attribute_tree.json''"
    by (simp_all add: path_join_def)
  have ck0: "clock (world ?st0) = 0" by (simp add: initial_state_def)
  note t = checkpointed_stages_are_recorded_completed[where out = "''output/paper''"
      and doc = "''paper''" and env = quiet_env and svc = observed_service
      and pdf_path = "''papers/paper.pdf''" and ?st0.0 = ?st0 and u = "()"
      and ?w1.0 = "world ?st0" and res = res and st' = st']
  from t d o mk ck nf run
  have "get_stage_result res METADATA_EXTRACTION
           = Some (checkpoint_result METADATA_EXTRACTION (clock (world ?st0))
                     (path_join ''output/paper'' (''paper'' @ ''_metadata.json'')))
         \<and> get_stage_result res FULL_OCR
           = Some (checkpoint_result FULL_OCR (clock (world ?st0))
                     (path_join ''output/paper'' ''complete.md''))
         \<and> get_stage_result res STRUCTURE_PARSING
           = Some (checkpoint_result STRUCTURE_PARSING (clock (world ?st0))
                     (path_join ''output/paper'' (''paper'' @ ''_attribute_tree.json'')))
         \<and> get_stage_result res REPORT_GENERATION
           = Some (checkpoint_result REPORT_GENERATION (clock (world ?st0))
                     (first_existing_report ''output/paper'' ''paper'' (files (world ?st0))))
         \<and> (\<exists>r5. get_stage_result res POST_PROCESSING = Some r5
               \<and> (overall_status res = COMPLETED \<longleftrightarrow> status r5 = COMPLETED))"
    by blast
  then show ?thesis unfolding fr pj ck0 using run by blast
qed

theorem checkpointed_stage_status_counterexample:
  "map_sum id (\<lambda>res. map (\<lambda>(s, r). (s, status r)) (stages res))
     (fst (process_paper quiet_env observed_service ''papers/paper.pdf''
        (initial_state checkpointed_files)))
   = Inr [(METADATA_EXTRACTION, COMPLETED), (FULL_OCR, COMPLETED),
          (STRUCTURE_PARSING, COMPLETED), (REPORT_GENERATION, COMPLETED),
          (POST_PROCESSING, COMPLETED)]
   \<and> check_stage_completed METADATA_EXTRACTION ''output/paper'' ''paper'' checkpointed_files
   \<and> COMPLETED \<noteq> SKIPPED"
  by (simp add: orchestrator_defs concrete_defs)

text \<open>
  Claim C4, as the code has it. When the returned result records the four content
  stages as \<open>COMPLETED\<close>, the post-processing stage has run and its result decides the
  outcome: \<open>overall_status\<close> is \<open>COMPLETED\<close> exactly when the post-processing completed;
  when it failed, \<open>overall_status\<close> is \<open>FAILED\<close> and \<open>pipeline_error\<close> is the message of
  the fifth stage followed by its error message.
\<close>

theorem post_processing_failure_fails_pipeline:
  assumes "process_paper env svc pdf_path st = (Inr res, st')"
    and "\<forall>s. s \<noteq> POST_PROCESSING \<longrightarrow> (\<exists>r. get_stage_result res s = Some r \<and> status r = COMPLETED)"
  shows "\<exists>r5. get_stage_result res POST_PROCESSING = Some r5
     \<and> (overall_status res = COMPLETED \<longleftrightarrow> status r5 = COMPLETED)
     \<and> (status r5 \<noteq> COMPLETED \<longrightarrow> overall_status res = FAILED
          \<and> pipeline_error res
              = Some (msg_stage_failed POST_PROCESSING @ py_str_opt (error_message r5)))"
proof -
  from assms(1) obtain u w1 exc res1 st1 w' where
    tb: "try_body env svc pdf_path (path_join (config_output_dir (config svc)) (path_stem pdf_path))
       (path_stem pdf_path)
       (initial_result pdf_path (path_join (config_output_dir (config svc)) (path_stem pdf_path))
          (path_stem pdf_path) (clock (world st)))
       (st\<lparr>world := w1\<rparr>) = ((exc, res1), st1)"
    and nx: "\<forall>c. exc \<noteq> Some (Exit c)"
    and res: "res = (after_handler env exc res1)
             \<lparr>run_end_time := Some (clock (world st1)),
              total_processing_time := clock (world st1) - clock (world st)\<rparr>"
    by (rule process_paper_returns)
  have "exc = None"
  proof (cases exc)
    case None then show ?thesis .
  next
    case (Some x)
    then obtain e where "exc = Some (Error e)" using nx by (cases x) simp_all
    then have "\<exists>r. map_of (stages res) METADATA_EXTRACTION = Some r \<and> status r = FAILED"
      using res handle_exception_first_stage[of env e res1] by auto
    moreover have "\<exists>r. map_of (stages res) METADATA_EXTRACTION = Some r \<and> status r = COMPLETED"
      using assms(2) by (simp add: get_stage_result_def)
    ultimately show ?thesis by auto
  qed
  then have "orderly res" using try_body_orderly[OF _ tb[unfolded \<open>exc = None\<close>]] res by simp
  then have "post_processing_decides res" by (simp add: orderly_def)
  then show ?thesis
    using assms(2) unfolding post_processing_decides_def get_stage_result_def by blast
qed

theorem post_processing_failure_fails_pipeline_witness:
  "\<exists>res st' r5.
     process_paper failing_post_env observed_service ''papers/paper.pdf''
       (initial_state checkpointed_files) = (Inr res, st')
     \<and> get_stage_result res POST_PROCESSING = Some r5
     \<and> status r5 \<noteq> COMPLETED
     \<and> overall_status res = FAILED
     \<and> pipeline_error res
         = Some (msg_stage_failed POST_PROCESSING @ py_str_opt (error_message r5))"
proof -
  have "\<exists>res st'.
     process_paper failing_post_env observed_service ''papers/paper.pdf''
       (initial_state checkpointed_files) = (Inr res, st')
     \<and> map (\<lambda>(s, r). (s, status r)) (stages res)
         = [(METADATA_EXTRACTION, COMPLETED), (FULL_OCR, COMPLETED),
            (STRUCTURE_PARSING, COMPLETED), (REPORT_GENERATION, COMPLETED),
            (POST_PROCESSING, FAILED)]"
    by (simp add: orchestrator_defs concrete_defs)
  then obtain res st' where
    run: "process_paper failing_post_env observed_service ''papers/paper.pdf''
       (initial_state checkpointed_files) = (Inr res, st')"
    and sts: "map (\<lambda>(s, r). (s, status r)) (stages res)
         = [(METADATA_EXTRACTION, COMPLETED), (FULL_OCR, COMPLETED),
            (STRUCTURE_PARSING, COMPLETED), (REPORT_GENERATION, COMPLETED),
            (POST_PROCESSING, FAILED)]"
    by (elim exE conjE)
  have look: "map_option status (map_of (stages res) s)
      = map_of (map (\<lambda>(s, r). (s, status r)) (stages res)) s" for s
    by (induction "stages res" arbitrary: res) (auto simp: map_of_map)
  have content: "\<forall>s. s \<noteq> POST_PROCESSING \<longrightarrow>
      (\<exists>r. get_stage_result res s = Some r \<and> status r = COMPLETED)"
  proof (intro allI impI)
    fix s :: ProcessingStage assume "s \<noteq> POST_PROCESSING"
    then have "map_option status (map_of (stages res) s) = Some COMPLETED"
      unfolding look sts by (cases s) simp_all
    then show "\<exists>r. get_stage_result res s = Some r \<and> status r = COMPLETED"
      by (auto simp: get_stage_result_def)
  qed
  have "map_option status (map_of (stages res) POST_PROCESSING) = Some FAILED"
    unfolding look sts by simp
  then obtain r5 where r5: "get_stage_result res POST_PROCESSING = Some r5" "status r5 = FAILED"
    by (auto simp: get_stage_result_def)
  from post_processing_failure_fails_pipeline[OF run content] r5
  show ?thesis using run by auto
qed

theorem post_processing_failure_counterexample:
  "map_sum id (\<lambda>res. (map (\<lambda>(s, r). (s, status r)) (stages res), overall_status res))
     (fst (process_paper failing_post_env observed_service ''papers/paper.pdf''
        (initial_state checkpointed_files)))
   = Inr ([(METADATA_EXTRACTION, COMPLETED), (FULL_OCR, COMPLETED),
           (STRUCTURE_PARSING, COMPLETED), (REPORT_GENERATION, COMPLETED),
           (POST_PROCESSING, FAILED)], FAILED)"
  by (simp add: orchestrator_defs concrete_defs)

text \<open>
  Claim C5, as the code has it. Once the output directory is created, and provided
  the result file can be written, the \<open>finally\<close> block of \<open>process_paper\<close> runs on every
  way out of the \<open>try\<close> block: the end time and the total processing time are set and
  the result is saved as \<open>pipeline_result.json\<close> in the output directory. What the
  caller gets depends on what left the \<open>try\<close> block:
  \<^item> nothing: the \<open>PipelineResult\<close> is returned;
  \<^item> an \<open>Exception\<close>: it is caught, the result is \<open>FAILED\<close>, \<open>pipeline_error\<close> carries the
    message of the exception, the failed stage result is filed under
    \<open>METADATA_EXTRACTION\<close>, the default stage, whatever stage was current, and the
    \<open>PipelineResult\<close> is returned;
  \<^item> an exception outside \<open>Exception\<close> (the SystemExit of a stage module that exits at
    import): no handler runs, the result object is saved as the \<open>try\<close> block left it, and
    the exception reaches the caller; no \<open>PipelineResult\<close> is returned.
\<close>

theorem process_paper_saves_result:
  assumes "doc = path_stem pdf_path"
    and "out = path_join (config_output_dir (config svc)) doc"
    and "path_mkdir env out (world st) = (Inr u, w1)"
    and "try_body env svc pdf_path out doc (initial_result pdf_path out doc (clock (world st)))
           (st\<lparr>world := w1\<rparr>) = ((exc, res1), st1)"
    and "write_failure env (path_join out ''pipeline_result.json'') (world st1) = None"
  shows "\<exists>res.
        result_files (world (snd (process_paper env svc pdf_path st)))
          (path_join out ''pipeline_result.json'') = Some res
      \<and> path_join out ''pipeline_result.json''
          \<in> files (world (snd (process_paper env svc pdf_path st)))
      \<and> run_end_time res = Some (clock (world st1))
      \<and> total_processing_time res = clock (world st1) - clock (world st)
      \<and> (exc = None \<longrightarrow>
            fst (process_paper env svc pdf_path st) = Inr res
            \<and> stages res = stages res1 \<and> overall_status res = overall_status res1)
      \<and> (\<forall>e. exc = Some (Error e) \<longrightarrow>
            fst (process_paper env svc pdf_path st) = Inr res
            \<and> overall_status res = FAILED
            \<and> pipeline_error res = Some (msg_pipeline_exception @ e)
            \<and> (\<exists>r. get_stage_result res METADATA_EXTRACTION = Some r
                  \<and> status r = FAILED \<and> error_message r = Some e))
      \<and> (\<forall>c. exc = Some (Exit c) \<longrightarrow>
            fst (process_paper env svc pdf_path st) = Inl (Exit c)
            \<and> stages res = stages res1 \<and> overall_status res = overall_status res1)"
proof -
  let ?file = "path_join out ''pipeline_result.json''"
  let ?res = "(after_handler env exc res1)
      \<lparr>run_end_time := Some (clock (world st1)),
       total_processing_time := clock (world st1) - clock (world st)\<rparr>"
  let ?w = "(world st1)\<lparr>files := insert ?file (files (world st1)),
      result_files := (result_files (world st1))(?file \<mapsto> ?res)\<rparr>"
  have sv: "save_to_file env ?file ?res (world st1) = (Inr (), ?w)"
    using assms(5) by (simp add: save_to_file_def)
  have run: "process_paper env svc pdf_path st
      = ((case exc of Some (Exit c) \<Rightarrow> Inl (Exit c) | _ \<Rightarrow> Inr ?res), st1\<lparr>world := ?w\<rparr>)"
    using assms(1-4) sv
    by (simp add: process_paper_def Let_def split: option.splits raised.splits)
  have handled: "overall_status (handle_exception env e res1) = FAILED
      \<and> pipeline_error (handle_exception env e res1) = Some (msg_pipeline_exception @ e)
      \<and> (\<exists>r. map_of (stages (handle_exception env e res1)) METADATA_EXTRACTION = Some r
            \<and> status r = FAILED \<and> error_message r = Some e)" for e
    by (simp add: handle_exception_def add_stage_result_def update_conv' new_StageResult_def)
  show ?thesis
  proof (rule exI[of _ ?res], intro conjI allI impI)
    fix e assume "exc = Some (Error e)"
    then show "\<exists>r. get_stage_result ?res METADATA_EXTRACTION = Some r
        \<and> status r = FAILED \<and> error_message r = Some e"
      using handled[of e] by (simp add: get_stage_result_def)
  qed (simp_all add: run handled)
qed

theorem process_paper_saves_result_witness:
  "(\<exists>res st'.
     process_paper faulty_env observed_service ''papers/paper.pdf'' (initial_state half_done_files)
       = (Inr res, st')
     \<and> run_end_time res \<noteq> None
     \<and> result_files (world st') ''output/paper/pipeline_result.json'' = Some res
     \<and> overall_status res = FAILED
     \<and> pipeline_error res = Some (msg_pipeline_exception @ ''unexpected'')
     \<and> (\<exists>r. get_stage_result res METADATA_EXTRACTION = Some r \<and> status r = FAILED))
   \<and> (\<exists>res.
     fst (process_paper exiting_import_env observed_service ''papers/paper.pdf''
            (initial_state {})) = Inl (Exit ''1'')
     \<and> result_files
         (world (snd (process_paper exiting_import_env observed_service ''papers/paper.pdf''
            (initial_state {})))) ''output/paper/pipeline_result.json'' = Some res
     \<and> run_end_time res \<noteq> None
     \<and> stages res = [] \<and> overall_status res = IN_PROGRESS)"
proof -
  have d: "''paper'' = path_stem ''papers/paper.pdf''"
    by (simp add: path_stem_def path_name_def)
  have out: "''output/paper'' = path_join (config_output_dir (config observed_service)) ''paper''"
    by (simp add: path_join_def observed_service_def default_config_def)
  have pj: "path_join ''output/paper'' ''pipeline_result.json'' = ''output/paper/pipeline_result.json''"
    by (simp add: path_join_def)
  have caught: "\<exists>res st'.
     process_paper faulty_env observed_service ''papers/paper.pdf'' (initial_state half_done_files)
       = (Inr res, st')
     \<and> run_end_time res \<noteq> None
     \<and> result_files (world st') ''output/paper/pipeline_result.json'' = Some res
     \<and> overall_status res = FAILED
     \<and> pipeline_error res = Some (msg_pipeline_exception @ ''unexpected'')
     \<and> (\<exists>r. get_stage_result res METADATA_EXTRACTION = Some r \<and> status r = FAILED)"
  proof -
    let ?st = "initial_state half_done_files"
    let ?tb = "try_body faulty_env observed_service ''papers/paper.pdf'' ''output/paper''
        ''paper''
        (initial_result ''papers/paper.pdf'' ''output/paper'' ''paper'' (clock (world ?st)))
        (?st\<lparr>world := world ?st\<rparr>)"
    have mk: "path_mkdir faulty_env ''output/paper'' (world ?st) = (Inr (), world ?st)"
      by (simp add: faulty_env_def quiet_env_def)
    obtain exc res1 st1 where tb: "?tb = ((exc, res1), st1)" by (cases ?tb) auto
    have "fst (fst ?tb) = Some (Error ''unexpected'')"
      by (simp add: orchestrator_defs concrete_defs)
    then have exc: "exc = Some (Error ''unexpected'')" using tb by simp
    have wr: "write_failure faulty_env (path_join ''output/paper'' ''pipeline_result.json'')
        (world st1) = None"
      by (simp add: faulty_env_def quiet_env_def)
    from process_paper_saves_result[OF d out mk tb wr] exc
    show ?thesis unfolding pj by (auto simp: prod_eq_iff)
  qed
  have passed: "\<exists>res.
     fst (process_paper exiting_import_env observed_service ''papers/paper.pdf''
            (initial_state {})) = Inl (Exit ''1'')
     \<and> result_files
         (world (snd (process_paper exiting_import_env observed_service ''papers/paper.pdf''
            (initial_state {})))) ''output/paper/pipeline_result.json'' = Some res
     \<and> run_end_time res \<noteq> None
     \<and> stages res = [] \<and> overall_status res = IN_PROGRESS"
  proof -
    let ?st = "initial_state {}"
    let ?tb = "try_body exiting_import_env observed_service ''papers/paper.pdf''
        ''output/paper'' ''paper''
        (initial_result ''papers/paper.pdf'' ''output/paper'' ''paper'' (clock (world ?st)))
        (?st\<lparr>world := world ?st\<rparr>)"
    have mk: "path_mkdir exiting_import_env ''output/paper'' (world ?st) = (Inr (), world ?st)"
      by (simp add: exiting_import_env_def quiet_env_def)
    obtain exc res1 st1 where tb: "?tb = ((exc, res1), st1)" by (cases ?tb) auto
    have "fst (fst ?tb) = Some (Exit ''1'') \<and> stages (snd (fst ?tb)) = []
        \<and> overall_status (snd (fst ?tb)) = IN_PROGRESS"
      by (simp add: orchestrator_defs concrete_defs)
    then have exc: "exc = Some (Exit ''1'')" "stages res1 = []"
        "overall_status res1 = IN_PROGRESS"
      using tb by simp_all
    have wr: "write_failure exiting_import_env
        (path_join ''output/paper'' ''pipeline_result.json'') (world st1) = None"
      by (simp add: exiting_import_env_def quiet_env_def)
    from process_paper_saves_result[OF d out mk tb wr] exc
    show ?thesis unfolding pj by auto
  qed
  from caught passed show ?thesis by (rule conjI)
qed

theorem process_paper_exception_counterexample:
  "fst (process_paper no_mkdir_env observed_service ''papers/paper.pdf'' (initial_state {}))
     = Inl (Error ''Permission denied'')
   \<and> fst (process_paper exiting_import_env observed_service ''papers/paper.pdf''
       (initial_state {}))
     = Inl (Exit ''1'')
   \<and> map_sum id (\<lambda>res. map (\<lambda>(s, r). (s, status r)) (stages res))
       (fst (process_paper faulty_env observed_service ''papers/paper.pdf''
          (initial_state half_done_files)))
     = Inr [(METADATA_EXTRACTION, FAILED), (FULL_OCR, COMPLETED)]"
  by (simp add: orchestrator_defs concrete_defs)



lemma world_stage_outcome [simp]:
  "world (snd (stage_outcome env svc r t0 x)) = world (snd x)"
  by (auto simp: stage_outcome_def fail_stage_def notify_error_def
        split: prod.splits sum.splits raised.splits)

text \<open>
  Claim C10. \<open>max_retry_attempts\<close> is not read: a run with a configuration that
  differs from another in this field only is the same run, with the same result and the
  same final state. The retry loop of the metadata extraction stage has its own bound:
  it calls \<open>stage1_process\<close> at most 3 times. It has no backoff delay: the world it
  leaves, the clock included, is the one that these calls produce when each is made in
  the world left by the one before, so that no time passes and nothing else happens
  between a failed attempt and the next one; the same holds of the whole of
  \<open>_run_stage1\<close>, which changes the world by at most 3 such calls and nothing else.
\<close>

theorem max_retry_attempts_is_not_read:
  "process_paper env (svc\<lparr>config := (config svc)\<lparr>max_retry_attempts := n\<rparr>\<rparr>) pdf_path st
     = process_paper env svc pdf_path st
   \<and> snd (fst (stage1_retry env svc pdf_path out 0 0 st)) \<le> 3
   \<and> world (snd (stage1_retry env svc pdf_path out 0 0 st))
       = stage1_calls_world env svc pdf_path out
           (snd (fst (stage1_retry env svc pdf_path out 0 0 st))) (world st)
   \<and> (\<exists>k. k \<le> 3
         \<and> world (snd (run_stage1 env svc pdf_path out st))
             = stage1_calls_world env svc pdf_path out k (world st))"
proof -
  have "same_reads (svc\<lparr>config := (config svc)\<lparr>max_retry_attempts := n\<rparr>\<rparr>) svc"
    by (simp add: same_reads_def)
  then have same: "process_paper env (svc\<lparr>config := (config svc)\<lparr>max_retry_attempts := n\<rparr>\<rparr>)
       pdf_path st
     = process_paper env svc pdf_path st"
    by (rule process_paper_cong)
  have loop: "snd (fst (stage1_retry env svc pdf_path out 0 0 st')) \<le> 3
     \<and> world (snd (stage1_retry env svc pdf_path out 0 0 st'))
       = stage1_calls_world env svc pdf_path out
           (snd (fst (stage1_retry env svc pdf_path out 0 0 st'))) (world st')" for st'
    using stage1_retry_calls_world[of 0 env svc pdf_path out 0 st']
    by (simp add: stage1_max_retries_def)
  have stage: "\<exists>k. k \<le> 3
         \<and> world (snd (run_stage1 env svc pdf_path out st))
             = stage1_calls_world env svc pdf_path out k (world st)"
  proof (cases "import_error env ''crop_pdf_first_three_page.process_pdf'' (world st)")
    case (Some x)
    then have "world (snd (run_stage1 env svc pdf_path out st))
        = stage1_calls_world env svc pdf_path out 0 (world st)"
      by (simp add: run_stage1_def stage1_try_def Let_def)
    then show ?thesis by (intro exI[of _ 0]) simp
  next
    case None
    let ?st2 = "notify_progress svc METADATA_EXTRACTION (3 / 10)
        (notify_progress svc METADATA_EXTRACTION 0 st)"
    let ?k = "snd (fst (stage1_retry env svc pdf_path out 0 0 ?st2))"
    have "world (snd (run_stage1 env svc pdf_path out st))
        = world (snd (stage1_retry env svc pdf_path out 0 0 ?st2))"
      using None
      by (simp add: run_stage1_def stage1_try_def Let_def
            split: prod.splits sum.splits option.splits)
    then have "world (snd (run_stage1 env svc pdf_path out st))
        = stage1_calls_world env svc pdf_path out ?k (world st)"
      using loop[of ?st2] by simp
    then show ?thesis using loop[of ?st2] by (intro exI[of _ ?k]) simp
  qed
  from same loop[of st] stage show ?thesis by (elim conjE) (intro conjI; assumption)
qed

theorem max_retry_attempts_is_not_read_witness:
  "process_paper timeout_env
       (observed_service\<lparr>config := (config observed_service)\<lparr>max_retry_attempts := 10\<rparr>\<rparr>)
       ''papers/paper.pdf'' (initial_state {})
     = process_paper timeout_env observed_service ''papers/paper.pdf'' (initial_state {})
   \<and> snd (fst (stage1_retry timeout_env observed_service ''papers/paper.pdf'' ''output/paper''
        0 0 (initial_state {}))) = 3
   \<and> clock (world (snd (stage1_retry timeout_env observed_service ''papers/paper.pdf''
        ''output/paper'' 0 0 (initial_state {})))) = 3"
proof -
  have calls: "snd (fst (stage1_retry timeout_env observed_service ''papers/paper.pdf''
        ''output/paper'' 0 0 (initial_state {}))) = 3"
    by (simp add: stage1_retry.simps stage1_call_def stage1_max_retries_def is_timeout_message_def
          lower_char_def notify_progress_def concrete_defs)
  have three: "clock (stage1_calls_world timeout_env observed_service ''papers/paper.pdf''
        ''output/paper'' 3 (world (initial_state {}))) = 3"
    by (simp add: eval_nat_numeral stage1_call_def concrete_defs)
  note t = max_retry_attempts_is_not_read[where env = timeout_env and svc = observed_service
        and n = 10 and pdf_path = "''papers/paper.pdf''" and st = "initial_state {}"
        and out = "''output/paper''"]
  from t have "world (snd (stage1_retry timeout_env observed_service ''papers/paper.pdf''
        ''output/paper'' 0 0 (initial_state {})))
      = stage1_calls_world timeout_env observed_service ''papers/paper.pdf'' ''output/paper''
          (snd (fst (stage1_retry timeout_env observed_service ''papers/paper.pdf''
             ''output/paper'' 0 0 (initial_state {})))) (world (initial_state {}))"
    by (elim conjE)
  then have "clock (world (snd (stage1_retry timeout_env observed_service ''papers/paper.pdf''
        ''output/paper'' 0 0 (initial_state {})))) = 3"
    unfolding calls using three by simp
  then show ?thesis using t calls by simp
qed

end
